theory Spec2Isabelle
  imports Complex_Main "HOL-Library.Word"
begin

section \<open>Element model\<close>

text \<open>
  The canvas builder stores a scene as an array of \<open>CanvasElement\<close> values
  (InteractiveCanvas.tsx):
  \<^verbatim>\<open>
  type Point = { x: number; y: number };
  type CanvasElement =
    | { type: 'rect';   x; y; width; height; color }
    | { type: 'circle'; x; y; radius; color }
    | { type: 'text';   x; y; text; fontSize; color }
    | { type: 'image';  x; y; width; height; src }
    | { type: 'path';   points: Point[]; color; strokeWidth };
  \<close>
  JavaScript numbers are modelled as reals. The content of a text element is a list of
  UTF-16 code units, which is what \<open>length\<close> and \<open>trim\<close> of a JavaScript
  string work on; colours and image sources are plain strings.
\<close>

datatype point = Point (px: real) (py: real)

type_synonym jsstring = "16 word list"

datatype element =
    Rect real real real real string
  | Circle real real real string
  | Text real real jsstring real string
  | Image real real real real string
  | Path "point list" string real

type_synonym scene = "element list"

section \<open>Page state and history (page.tsx)\<close>

text \<open>
  \<^verbatim>\<open>
  const [elements, setElements] = useState<CanvasElement[]>([]);
  const [history, setHistory] = useState<CanvasElement[][]>([[]]);
  const [historyIndex, setHistoryIndex] = useState(0);
  \<close>
\<close>

record page =
  elements :: scene
  history :: "scene list"
  historyIndex :: nat

definition initialPage :: page where
  "initialPage = \<lparr>elements = [], history = [[]], historyIndex = 0\<rparr>"

text \<open>
  \<open>arr[i]\<close> of a JavaScript array is \<open>undefined\<close> when \<open>i\<close> is out of range.
\<close>

definition js_index :: "'a list \<Rightarrow> nat \<Rightarrow> 'a option" where
  "js_index xs i = (if i < length xs then Some (xs ! i) else None)"

text \<open>
  \<^verbatim>\<open>
  const addToHistory = (newElements) => {
    const newHistory = history.slice(0, historyIndex + 1);
    newHistory.push(newElements);
    setHistory(newHistory);
    setHistoryIndex(newHistory.length - 1);
    setElements(newElements);
  };
  \<close>
\<close>

definition addToHistory :: "scene \<Rightarrow> page \<Rightarrow> page" where
  "addToHistory newElements s =
     (let newHistory = take (historyIndex s + 1) (history s) @ [newElements]
      in \<lparr>elements = newElements, history = newHistory,
          historyIndex = length newHistory - 1\<rparr>)"

definition handleAddElement :: "element \<Rightarrow> page \<Rightarrow> page" where
  "handleAddElement newEl s = addToHistory (elements s @ [newEl]) s"

text \<open>\<open>elements.filter((_, i) => i !== index)\<close>\<close>

definition removeAt :: "nat \<Rightarrow> 'a list \<Rightarrow> 'a list" where
  "removeAt index xs = map fst (filter (\<lambda>(_, i). i \<noteq> index) (zip xs [0..<length xs]))"

definition handleRemoveElement :: "nat \<Rightarrow> page \<Rightarrow> page" where
  "handleRemoveElement index s = addToHistory (removeAt index (elements s)) s"

definition clearCanvas :: "page \<Rightarrow> page" where
  "clearCanvas s = addToHistory [] s"

text \<open>
  \<^verbatim>\<open>
  const handleUndo = () => {
    if (historyIndex > 0) {
      const newIndex = historyIndex - 1;
      setHistoryIndex(newIndex);
      setElements(history[newIndex]);
    }
  };
  const handleRedo = () => {
    if (historyIndex < history.length - 1) {
      const newIndex = historyIndex + 1;
      setHistoryIndex(newIndex);
      setElements(history[newIndex]);
    }
  };
  \<close>
  Reading \<open>history[newIndex]\<close> out of range would store \<open>undefined\<close> as the scene;
  that outcome is \<open>None\<close>. The comparison \<open>historyIndex < history.length - 1\<close> is on
  JavaScript numbers, so it is written over the integers.
\<close>

definition handleUndo :: "page \<Rightarrow> page option" where
  "handleUndo s =
     (if historyIndex s > 0 then
        (let newIndex = historyIndex s - 1 in
         case js_index (history s) newIndex of
           None \<Rightarrow> None
         | Some snapshot \<Rightarrow> Some (s\<lparr>historyIndex := newIndex, elements := snapshot\<rparr>))
      else Some s)"

definition handleRedo :: "page \<Rightarrow> page option" where
  "handleRedo s =
     (if int (historyIndex s) < int (length (history s)) - 1 then
        (let newIndex = historyIndex s + 1 in
         case js_index (history s) newIndex of
           None \<Rightarrow> None
         | Some snapshot \<Rightarrow> Some (s\<lparr>historyIndex := newIndex, elements := snapshot\<rparr>))
      else Some s)"

text \<open>\<open>canUndo={historyIndex > 0}\<close>, \<open>canRedo={historyIndex < history.length - 1}\<close>\<close>

definition canUndo :: "page \<Rightarrow> bool" where
  "canUndo s = (historyIndex s > 0)"

definition canRedo :: "page \<Rightarrow> bool" where
  "canRedo s = (int (historyIndex s) < int (length (history s)) - 1)"

text \<open>A sequence of presses of the undo and redo buttons.\<close>

datatype nav = Undo | Redo

fun navigate :: "nav list \<Rightarrow> page \<Rightarrow> page option" where
  "navigate [] s = Some s"
| "navigate (Undo # ns) s = Option.bind (handleUndo s) (navigate ns)"
| "navigate (Redo # ns) s = Option.bind (handleRedo s) (navigate ns)"

section \<open>The raw-canvas InteractiveCanvas component\<close>

text \<open>
  The component that page.tsx mounts keeps its own interaction state:
  \<^verbatim>\<open>
  const [isDrawing, setIsDrawing] = useState(false);
  const [isDragging, setIsDragging] = useState(false);
  const [isResizing, setIsResizing] = useState<string | null>(null); // 'nw','ne','sw','se'
  const [startPos, setStartPos] = useState<Point | null>(null);
  const [currentPos, setCurrentPos] = useState<Point | null>(null);
  const [currentPath, setCurrentPath] = useState<Point[]>([]);
  const [editingText, setEditingText] = useState<{x; y; value} | null>(null);
  const [selectedIndex, setSelectedIndex] = useState<number | null>(null);
  const [initialElementState, setInitialElementState] = useState<CanvasElement | null>(null);
  \<close>
  Every handler is a function from the state it closes over to the state after its
  batched updates; an event sees the state left by the event before it.
\<close>

datatype tool = Select | RectTool | CircleTool | TextTool | ImageTool | Pencil | Eraser

datatype handle = NW | NE | SW | SE

record textEdit =
  editX :: real
  editY :: real
  editValue :: jsstring

record canvas =
  isDrawing :: bool
  isDragging :: bool
  isResizing :: "handle option"
  startPos :: "point option"
  currentPos :: "point option"
  currentPath :: "point list"
  editingText :: "textEdit option"
  selectedIndex :: "nat option"
  initialElementState :: "element option"

definition initialCanvas :: canvas where
  "initialCanvas = \<lparr>isDrawing = False, isDragging = False, isResizing = None,
     startPos = None, currentPos = None, currentPath = [], editingText = None,
     selectedIndex = None, initialElementState = None\<rparr>"

text \<open>
  The props of the component and the two browser services its handlers call:
  \<open>ctx.isPointInStroke\<close>, asked with the line width and the vertices of the current
  path, and \<open>prompt\<close>, whose answer is \<open>None\<close> when the dialog is cancelled.
\<close>

record env =
  activeTool :: tool
  currentColor :: string
  currentStrokeWidth :: real
  isPointInStroke :: "real \<Rightarrow> point list \<Rightarrow> point \<Rightarrow> bool"
  promptAnswer :: "string option"

definition HANDLE_SIZE :: real where
  "HANDLE_SIZE = 8"

text \<open>\<open>a || b\<close> on numbers: \<open>b\<close> when \<open>a\<close> is zero.\<close>

definition js_or :: "real \<Rightarrow> real \<Rightarrow> real" where
  "js_or a b = (if a = 0 then b else a)"

text \<open>
  \<^verbatim>\<open>
  const getResizeHandle = (x, y, el) => {
    if (el.type === 'path' || el.type === 'text') return null;
    const right = el.x + (el.type === 'circle' ? el.radius * 2 : (el as any).width || 0);
    const bottom = el.y + (el.type === 'circle' ? el.radius * 2 : (el as any).height || 0);
    // For circle, we treat x,y as top-left of bounding box for resize logic simplicity
    const handles = [ { id: 'nw', x: el.x, y: el.y }, { id: 'ne', x: right, y: el.y },
                      { id: 'sw', x: el.x, y: bottom }, { id: 'se', x: right, y: bottom } ];
    for (const h of handles) {
      if (x >= h.x - HANDLE_SIZE && x <= h.x + HANDLE_SIZE &&
          y >= h.y - HANDLE_SIZE && y <= h.y + HANDLE_SIZE) return h.id;
    }
    return null;
  };
  \<close>
\<close>

fun handleCorners :: "element \<Rightarrow> (handle \<times> real \<times> real) list" where
  "handleCorners (Path pts c sw) = []"
| "handleCorners (Text ex ey t fs c) = []"
| "handleCorners (Circle ex ey r c) =
     (let right = ex + r * 2; bottom = ey + r * 2
      in [(NW, ex, ey), (NE, right, ey), (SW, ex, bottom), (SE, right, bottom)])"
| "handleCorners (Rect ex ey w h c) =
     (let right = ex + js_or w 0; bottom = ey + js_or h 0
      in [(NW, ex, ey), (NE, right, ey), (SW, ex, bottom), (SE, right, bottom)])"
| "handleCorners (Image ex ey w h src) =
     (let right = ex + js_or w 0; bottom = ey + js_or h 0
      in [(NW, ex, ey), (NE, right, ey), (SW, ex, bottom), (SE, right, bottom)])"

definition inHandleZone :: "real \<Rightarrow> real \<Rightarrow> (handle \<times> real \<times> real) \<Rightarrow> bool" where
  "inHandleZone x y h = (case h of (_, hx, hy) \<Rightarrow>
     x \<ge> hx - HANDLE_SIZE \<and> x \<le> hx + HANDLE_SIZE \<and>
     y \<ge> hy - HANDLE_SIZE \<and> y \<le> hy + HANDLE_SIZE)"

definition getResizeHandle :: "real \<Rightarrow> real \<Rightarrow> element \<Rightarrow> handle option" where
  "getResizeHandle x y el = map_option fst (find (inHandleZone x y) (handleCorners el))"

text \<open>
  The hit test of the select tool (the body of the loop in \<open>handleMouseDown\<close>):
  \<^verbatim>\<open>
  if (el.type === 'rect' || el.type === 'image') {
    const x = el.width < 0 ? el.x + el.width : el.x;
    const y = el.height < 0 ? el.y + el.height : el.y;
    const w = Math.abs(el.width);
    const h = Math.abs(el.height);
    hit = pos.x >= x && pos.x <= x + w && pos.y >= y && pos.y <= y + h;
  } else if (el.type === 'circle') {
    const dist = Math.sqrt(Math.pow(pos.x - el.x, 2) + Math.pow(pos.y - el.y, 2));
    hit = dist <= el.radius;
  } else if (el.type === 'text') {
    hit = pos.x >= el.x && pos.x <= el.x + (el.fontSize * el.text.length * 0.6)
          && pos.y <= el.y && pos.y >= el.y - el.fontSize;
  } else if (el.type === 'path') {
    ctx.beginPath();
    ctx.lineWidth = el.strokeWidth + 10;       // the eraser: el.strokeWidth + 5
    if (el.points.length > 0) {
      ctx.moveTo(el.points[0].x, el.points[0].y);
      for (let p of el.points) ctx.lineTo(p.x, p.y);
      hit = ctx.isPointInStroke(pos.x, pos.y);
    }
  }
  \<close>
  The eraser repeats the same code with its own line width for a path, so both are
  instances of \<open>hitWith\<close>, which takes the amount added to the stroke width.
\<close>

definition boxHit :: "point \<Rightarrow> real \<Rightarrow> real \<Rightarrow> real \<Rightarrow> real \<Rightarrow> bool" where
  "boxHit pos ex ey ew eh =
     (let x = (if ew < 0 then ex + ew else ex);
          y = (if eh < 0 then ey + eh else ey);
          w = \<bar>ew\<bar>;
          h = \<bar>eh\<bar>
      in px pos \<ge> x \<and> px pos \<le> x + w \<and> py pos \<ge> y \<and> py pos \<le> y + h)"

fun hitWith :: "real \<Rightarrow> (real \<Rightarrow> point list \<Rightarrow> point \<Rightarrow> bool) \<Rightarrow> point \<Rightarrow> element \<Rightarrow> bool" where
  "hitWith pad q pos (Rect ex ey w h c) = boxHit pos ex ey w h"
| "hitWith pad q pos (Image ex ey w h src) = boxHit pos ex ey w h"
| "hitWith pad q pos (Circle ex ey r c) =
     (sqrt ((px pos - ex)\<^sup>2 + (py pos - ey)\<^sup>2) \<le> r)"
| "hitWith pad q pos (Text ex ey t fs c) =
     (px pos \<ge> ex \<and> px pos \<le> ex + (fs * real (length t) * 0.6) \<and>
      py pos \<le> ey \<and> py pos \<ge> ey - fs)"
| "hitWith pad q pos (Path pts c sw) =
     (case pts of [] \<Rightarrow> False | p0 # _ \<Rightarrow> q (sw + pad) (p0 # pts) pos)"

definition hitSelect :: "(real \<Rightarrow> point list \<Rightarrow> point \<Rightarrow> bool) \<Rightarrow> point \<Rightarrow> element \<Rightarrow> bool" where
  "hitSelect = hitWith 10"

definition hitEraser :: "(real \<Rightarrow> point list \<Rightarrow> point \<Rightarrow> bool) \<Rightarrow> point \<Rightarrow> element \<Rightarrow> bool" where
  "hitEraser = hitWith 5"

text \<open>
  \<open>for (let i = elements.length - 1; i >= 0; i--) { ... if (hit) { ...; return; } }\<close>:
  \<open>scanDown hit els n\<close> looks at the indices below \<open>n\<close>, the highest first.
\<close>

fun scanDown :: "(element \<Rightarrow> bool) \<Rightarrow> element list \<Rightarrow> nat \<Rightarrow> nat option" where
  "scanDown hit els 0 = None"
| "scanDown hit els (Suc i) = (if hit (els ! i) then Some i else scanDown hit els i)"

definition topmostHit :: "(element \<Rightarrow> bool) \<Rightarrow> element list \<Rightarrow> nat option" where
  "topmostHit hit els = scanDown hit els (length els)"

text \<open>
  The update callback that page.tsx passes down; it replaces one element of the
  current scene and does not touch the history:
  \<^verbatim>\<open>
  onElementUpdate={(index, newEl) => {
      const newElements = [...elements];
      newElements[index] = newEl;
      setElements(newElements);
  }}
  \<close>
  Writing at the index \<open>length\<close> appends. An index beyond that would make
  JavaScript grow the array with empty slots, which is no scene any more: \<open>None\<close>.
\<close>

definition onElementUpdate :: "nat \<Rightarrow> element \<Rightarrow> page \<Rightarrow> page option" where
  "onElementUpdate index newEl s =
     (if index < length (elements s)
      then Some (s\<lparr>elements := (elements s)[index := newEl]\<rparr>)
      else if index = length (elements s)
      then Some (s\<lparr>elements := elements s @ [newEl]\<rparr>)
      else None)"

text \<open>
  \<open>{ ...initialElementState, x: initialElementState.x + dx, y: initialElementState.y + dy }\<close>.
  A path has no \<open>x\<close> and \<open>y\<close>; the two stray fields the spread gives it are not
  part of the element type and nothing reads them.
\<close>

fun moveBy :: "real \<Rightarrow> real \<Rightarrow> element \<Rightarrow> element" where
  "moveBy dx dy (Rect ex ey w h c) = Rect (ex + dx) (ey + dy) w h c"
| "moveBy dx dy (Circle ex ey r c) = Circle (ex + dx) (ey + dy) r c"
| "moveBy dx dy (Text ex ey t fs c) = Text (ex + dx) (ey + dy) t fs c"
| "moveBy dx dy (Image ex ey w h src) = Image (ex + dx) (ey + dy) w h src"
| "moveBy dx dy (Path pts c sw) = Path pts c sw"

text \<open>
  \<open>handleMouseDown\<close>. The select tool looks for a resize handle of the selected element
  first and then for the topmost element under the pointer; the eraser removes the
  topmost element under the pointer; every other tool starts a drawing operation.
  \<^verbatim>\<open>
  if (activeTool === 'select') {
    if (selectedIndex !== null && elements[selectedIndex]) {
      const handle = getResizeHandle(pos.x, pos.y, elements[selectedIndex]);
      if (handle) { setIsResizing(handle); setStartPos(pos);
                    setInitialElementState({ ...elements[selectedIndex] }); return; }
    }
    for (let i = elements.length - 1; i >= 0; i--) {
      ... if (hit) { setSelectedIndex(i); setIsDragging(true); setStartPos(pos);
                     setInitialElementState({ ...el }); return; }
    }
    setSelectedIndex(null);
    return;
  }
  if (activeTool === 'eraser') {
    if (onElementRemove) {
      for (let i = elements.length - 1; i >= 0; i--) {
        ... if (hit) { onElementRemove(i); return; }
      }
    }
    return;
  }
  setIsDrawing(true); setStartPos(pos); setCurrentPos(pos);
  if (activeTool === 'pencil') { setCurrentPath([pos]); }
  else if (activeTool === 'text') {
    setEditingText({ x: pos.x, y: pos.y, value: '' }); setIsDrawing(false);
  } else if (activeTool === 'image') {
    const url = prompt('Enter Image URL:', 'https://via.placeholder.com/150');
    if (url) { onElementAdd({ type: 'image', x: pos.x, y: pos.y,
                              width: 150, height: 150, src: url });
               setIsDrawing(false); }
  }
  \<close>
\<close>

definition selectedHandle :: "point \<Rightarrow> page \<Rightarrow> canvas \<Rightarrow> (handle \<times> element) option" where
  "selectedHandle pos pg cv =
     (case selectedIndex cv of
        None \<Rightarrow> None
      | Some k \<Rightarrow>
         (case js_index (elements pg) k of
            None \<Rightarrow> None
          | Some el \<Rightarrow> map_option (\<lambda>h. (h, el)) (getResizeHandle (px pos) (py pos) el)))"

definition handleMouseDown :: "env \<Rightarrow> point \<Rightarrow> page \<times> canvas \<Rightarrow> page \<times> canvas" where
  "handleMouseDown e pos st = (case st of (pg, cv) \<Rightarrow>
     if activeTool e = Select then
       (case selectedHandle pos pg cv of
          Some (h, el) \<Rightarrow>
            (pg, cv\<lparr>isResizing := Some h, startPos := Some pos,
                    initialElementState := Some el\<rparr>)
        | None \<Rightarrow>
            (case topmostHit (hitSelect (isPointInStroke e) pos) (elements pg) of
               Some i \<Rightarrow>
                 (pg, cv\<lparr>selectedIndex := Some i, isDragging := True, startPos := Some pos,
                         initialElementState := Some (elements pg ! i)\<rparr>)
             | None \<Rightarrow> (pg, cv\<lparr>selectedIndex := None\<rparr>)))
     else if activeTool e = Eraser then
       (case topmostHit (hitEraser (isPointInStroke e) pos) (elements pg) of
          Some i \<Rightarrow> (handleRemoveElement i pg, cv)
        | None \<Rightarrow> (pg, cv))
     else
       (let cv1 = cv\<lparr>isDrawing := True, startPos := Some pos, currentPos := Some pos\<rparr> in
        if activeTool e = Pencil then (pg, cv1\<lparr>currentPath := [pos]\<rparr>)
        else if activeTool e = TextTool then
          (pg, cv1\<lparr>editingText := Some \<lparr>editX = px pos, editY = py pos, editValue = []\<rparr>,
                   isDrawing := False\<rparr>)
        else if activeTool e = ImageTool then
          (case promptAnswer e of
             None \<Rightarrow> (pg, cv1)
           | Some url \<Rightarrow>
               if url = [] then (pg, cv1)
               else (handleAddElement (Image (px pos) (py pos) 150 150 url) pg,
                     cv1\<lparr>isDrawing := False\<rparr>))
        else (pg, cv1)))"

text \<open>
  \<open>handleMouseMove\<close>. (Its first block only sets the cursor style.)
  \<^verbatim>\<open>
  if (isDragging && selectedIndex !== null && startPos && initialElementState && onElementUpdate) {
    const dx = pos.x - startPos.x;  const dy = pos.y - startPos.y;
    if (activeTool !== 'pencil' && onElementUpdate) {
      onElementUpdate(selectedIndex, { ...initialElementState,
          x: initialElementState.x + dx, y: initialElementState.y + dy });
    }
    return;
  }
  if (isResizing && selectedIndex !== null && startPos && initialElementState && onElementUpdate) {
    const dx = pos.x - startPos.x;  const dy = pos.y - startPos.y;
    const el = { ...initialElementState };
    if (el.type === 'rect' || el.type === 'image') {
      let newW = el.width; let newH = el.height; let newX = el.x; let newY = el.y;
      if (isResizing === 'se') { newW += dx; newH += dy; }
      else if (isResizing === 'sw') { newX += dx; newW -= dx; newH += dy; }
      else if (isResizing === 'nw') { newX += dx; newY += dy; newW -= dx; newH -= dy; }
      else if (isResizing === 'ne') { newY += dy; newW += dx; newH -= dy; }
      onElementUpdate(selectedIndex, { ...el, width: newW, height: newH, x: newX, y: newY });
    } else if (el.type === 'circle') {
      const dr = dx;
      onElementUpdate(selectedIndex, { ...el, radius: el.radius + dr/2 });
    }
    return;
  }
  if (!isDrawing) return;
  setCurrentPos(pos);
  if (activeTool === 'pencil') { setCurrentPath(prev => [...prev, pos]); }
  \<close>
\<close>

fun resizeBox :: "handle \<Rightarrow> real \<Rightarrow> real \<Rightarrow> real \<times> real \<times> real \<times> real \<Rightarrow> real \<times> real \<times> real \<times> real" where
  "resizeBox SE dx dy (x, y, w, h) = (x, y, w + dx, h + dy)"
| "resizeBox SW dx dy (x, y, w, h) = (x + dx, y, w - dx, h + dy)"
| "resizeBox NW dx dy (x, y, w, h) = (x + dx, y + dy, w - dx, h - dy)"
| "resizeBox NE dx dy (x, y, w, h) = (x, y + dy, w + dx, h - dy)"

fun resized :: "handle \<Rightarrow> real \<Rightarrow> real \<Rightarrow> element \<Rightarrow> element option" where
  "resized hnd dx dy (Rect ex ey w h c) =
     (case resizeBox hnd dx dy (ex, ey, w, h) of
        (newX, newY, newW, newH) \<Rightarrow> Some (Rect newX newY newW newH c))"
| "resized hnd dx dy (Image ex ey w h src) =
     (case resizeBox hnd dx dy (ex, ey, w, h) of
        (newX, newY, newW, newH) \<Rightarrow> Some (Image newX newY newW newH src))"
| "resized hnd dx dy (Circle ex ey r c) = Some (Circle ex ey (r + dx / 2) c)"
| "resized hnd dx dy (Text ex ey t fs c) = None"
| "resized hnd dx dy (Path pts c sw) = None"

definition handleMouseMove :: "env \<Rightarrow> point \<Rightarrow> page \<times> canvas \<Rightarrow> (page \<times> canvas) option" where
  "handleMouseMove e pos st = (case st of (pg, cv) \<Rightarrow>
     (case (selectedIndex cv, startPos cv, initialElementState cv) of
        (Some k, Some start, Some init) \<Rightarrow>
          (let dx = px pos - px start; dy = py pos - py start in
           if isDragging cv then
             (if activeTool e \<noteq> Pencil
              then map_option (\<lambda>pg'. (pg', cv)) (onElementUpdate k (moveBy dx dy init) pg)
              else Some (pg, cv))
           else
             (case isResizing cv of
                Some hnd \<Rightarrow>
                  (case resized hnd dx dy init of
                     Some el' \<Rightarrow> map_option (\<lambda>pg'. (pg', cv)) (onElementUpdate k el' pg)
                   | None \<Rightarrow> Some (pg, cv))
              | None \<Rightarrow>
                  if \<not> isDrawing cv then Some (pg, cv)
                  else Some (pg, cv\<lparr>currentPos := Some pos,
                          currentPath := (if activeTool e = Pencil
                                          then currentPath cv @ [pos] else currentPath cv)\<rparr>)))
      | _ \<Rightarrow>
          if \<not> isDrawing cv then Some (pg, cv)
          else Some (pg, cv\<lparr>currentPos := Some pos,
                  currentPath := (if activeTool e = Pencil
                                  then currentPath cv @ [pos] else currentPath cv)\<rparr>)))"

text \<open>
  \<open>handleMouseUp\<close> (also bound to \<open>onMouseLeave\<close>).
  \<^verbatim>\<open>
  if (isDragging || isResizing) {
    setIsDragging(false); setIsResizing(null); setStartPos(null);
    setInitialElementState(null);
    return;
  }
  if (!isDrawing) return;
  setIsDrawing(false);
  if (activeTool === 'pencil') {
    onElementAdd({ type: 'path', points: currentPath, color: currentColor,
                   strokeWidth: currentStrokeWidth });
    setCurrentPath([]);
  } else if (activeTool === 'rect' && startPos && currentPos) {
    onElementAdd({ type: 'rect', x: startPos.x, y: startPos.y,
                   width: currentPos.x - startPos.x, height: currentPos.y - startPos.y,
                   color: currentColor });
  } else if (activeTool === 'circle' && startPos && currentPos) {
    const radius = Math.sqrt(Math.pow(currentPos.x - startPos.x, 2)
                           + Math.pow(currentPos.y - startPos.y, 2));
    onElementAdd({ type: 'circle', x: startPos.x, y: startPos.y, radius: radius,
                   color: currentColor });
  }
  setStartPos(null); setCurrentPos(null);
  \<close>
\<close>

definition drawnShape :: "env \<Rightarrow> canvas \<Rightarrow> element option" where
  "drawnShape e cv =
     (if activeTool e = Pencil then
        Some (Path (currentPath cv) (currentColor e) (currentStrokeWidth e))
      else
        (case (startPos cv, currentPos cv) of
           (Some s, Some c) \<Rightarrow>
             if activeTool e = RectTool then
               Some (Rect (px s) (py s) (px c - px s) (py c - py s) (currentColor e))
             else if activeTool e = CircleTool then
               Some (Circle (px s) (py s)
                       (sqrt ((px c - px s)\<^sup>2 + (py c - py s)\<^sup>2)) (currentColor e))
             else None
         | _ \<Rightarrow> None))"

definition handleMouseUp :: "env \<Rightarrow> page \<times> canvas \<Rightarrow> page \<times> canvas" where
  "handleMouseUp e st = (case st of (pg, cv) \<Rightarrow>
     if isDragging cv \<or> isResizing cv \<noteq> None then
       (pg, cv\<lparr>isDragging := False, isResizing := None, startPos := None,
               initialElementState := None\<rparr>)
     else if \<not> isDrawing cv then (pg, cv)
     else
       (let pg' = (case drawnShape e cv of Some el \<Rightarrow> handleAddElement el pg | None \<Rightarrow> pg);
            path' = (if activeTool e = Pencil then [] else currentPath cv)
        in (pg', cv\<lparr>isDrawing := False, currentPath := path',
                    startPos := None, currentPos := None\<rparr>)))"

text \<open>
  Inline text editing: the text tool opens an input at the click position, and the
  element is added when the input loses focus (Enter blurs it).
  \<^verbatim>\<open>
  onChange={(e) => setEditingText({ ...editingText, value: e.target.value })}
  onBlur={() => {
      if (editingText.value.trim()) {
          onElementAdd({ type: 'text', x: editingText.x, y: editingText.y,
                         text: editingText.value, fontSize: 24, color: currentColor });
      }
      setEditingText(null);
  }}
  onKeyDown={(e) => { if (e.key === 'Enter') { e.currentTarget.blur(); } }}
  \<close>
  \<open>String.prototype.trim\<close> strips the ECMAScript white space and line terminator
  code units from both ends; the trimmed string is truthy when it is not empty.
\<close>

definition isWhiteSpace :: "16 word \<Rightarrow> bool" where
  "isWhiteSpace c =
     (c = 0x09 \<or> c = 0x0A \<or> c = 0x0B \<or> c = 0x0C \<or> c = 0x0D \<or> c = 0x20 \<or> c = 0xA0 \<or>
      c = 0x1680 \<or> (0x2000 \<le> c \<and> c \<le> 0x200A) \<or> c = 0x2028 \<or> c = 0x2029 \<or>
      c = 0x202F \<or> c = 0x205F \<or> c = 0x3000 \<or> c = 0xFEFF)"

definition js_trim :: "jsstring \<Rightarrow> jsstring" where
  "js_trim s = rev (dropWhile isWhiteSpace (rev (dropWhile isWhiteSpace s)))"

definition onChange :: "jsstring \<Rightarrow> page \<times> canvas \<Rightarrow> page \<times> canvas" where
  "onChange v st = (case st of (pg, cv) \<Rightarrow>
     (pg, cv\<lparr>editingText := map_option (\<lambda>ed. ed\<lparr>editValue := v\<rparr>) (editingText cv)\<rparr>))"

definition onBlur :: "env \<Rightarrow> page \<times> canvas \<Rightarrow> page \<times> canvas" where
  "onBlur e st = (case st of (pg, cv) \<Rightarrow>
     (case editingText cv of
        None \<Rightarrow> (pg, cv)
      | Some ed \<Rightarrow>
          ((if js_trim (editValue ed) \<noteq> []
            then handleAddElement
                   (Text (editX ed) (editY ed) (editValue ed) 24 (currentColor e)) pg
            else pg),
           cv\<lparr>editingText := None\<rparr>)))"

definition onKeyDown :: "env \<Rightarrow> string \<Rightarrow> page \<times> canvas \<Rightarrow> page \<times> canvas" where
  "onKeyDown e key st = (if key = ''Enter'' then onBlur e st else st)"

section \<open>The Konva InteractiveCanvas component\<close>

text \<open>
  The other version of the component keeps the shape being drawn in \<open>newShape\<close> and
  checks it when the pointer is released:
  \<^verbatim>\<open>
  const handleMouseMove = () => {
    if (!isDrawing || !startPos || !newShape) return;
    const pos = getPointerPos();
    if (!pos) return;
    if (activeTool === 'rect') {
      setNewShape({ ...newShape, width: pos.x - startPos.x, height: pos.y - startPos.y });
    } else if (activeTool === 'circle') {
      const radius = Math.sqrt(Math.pow(pos.x - startPos.x, 2) + Math.pow(pos.y - startPos.y, 2));
      setNewShape({ ...newShape, radius });
    } else if (activeTool === 'pencil') {
      if (newShape.type === 'path') {
        setNewShape({ ...newShape, points: [...newShape.points, pos] });
      }
    }
  };
  const handleMouseUp = () => {
    if (isDrawing && newShape) {
      // Validation check before add
      const isValid =
           (newShape.type === 'rect' && (Math.abs(newShape.width) > 5)) ||
           (newShape.type === 'circle' && newShape.radius > 5) ||
           (newShape.type === 'path' && newShape.points.length > 2);
      if (isValid) onElementAdd(newShape);
    }
    setIsDrawing(false);
    setNewShape(null);
  };
  \<close>
\<close>

record konva =
  kIsDrawing :: bool
  kStartPos :: "point option"
  newShape :: "element option"

fun isValid :: "element \<Rightarrow> bool" where
  "isValid (Rect ex ey w h c) = (\<bar>w\<bar> > 5)"
| "isValid (Circle ex ey r c) = (r > 5)"
| "isValid (Path pts c sw) = (length pts > 2)"
| "isValid (Text ex ey t fs c) = False"
| "isValid (Image ex ey w h src) = False"

fun konvaGrow :: "tool \<Rightarrow> point \<Rightarrow> point \<Rightarrow> element \<Rightarrow> element" where
  "konvaGrow RectTool start pos (Rect ex ey w h c) =
     Rect ex ey (px pos - px start) (py pos - py start) c"
| "konvaGrow CircleTool start pos (Circle ex ey r c) =
     Circle ex ey (sqrt ((px pos - px start)\<^sup>2 + (py pos - py start)\<^sup>2)) c"
| "konvaGrow Pencil start pos (Path pts c sw) = Path (pts @ [pos]) c sw"
| "konvaGrow t start pos el = el"

definition konvaMouseMove :: "tool \<Rightarrow> point \<Rightarrow> konva \<Rightarrow> konva" where
  "konvaMouseMove t pos k =
     (case (kStartPos k, newShape k) of
        (Some start, Some sh) \<Rightarrow>
          if kIsDrawing k then k\<lparr>newShape := Some (konvaGrow t start pos sh)\<rparr> else k
      | _ \<Rightarrow> k)"

definition konvaMouseUp :: "page \<times> konva \<Rightarrow> page \<times> konva" where
  "konvaMouseUp st = (case st of (pg, k) \<Rightarrow>
     ((case newShape k of
         Some sh \<Rightarrow> if kIsDrawing k \<and> isValid sh then handleAddElement sh pg else pg
       | None \<Rightarrow> pg),
      k\<lparr>kIsDrawing := False, newShape := None\<rparr>))"

section \<open>The export server (server.js)\<close>

text \<open>
  \<open>drawElements\<close> paints the elements in order on a node-canvas context. The context
  is modelled by the list of calls made on it, and \<open>console.error\<close> by a log.
  \<open>loadImage\<close> belongs to the canvas library: it is a parameter that either gives an
  image or rejects with a message.
  \<^verbatim>\<open>
  async function drawElements(ctx, elements) {
    for (const el of elements) {
      if (el.type === 'rect') {
        ctx.fillStyle = el.color;
        ctx.fillRect(el.x, el.y, el.width, el.height);
      } else if (el.type === 'circle') {
        ctx.beginPath();
        ctx.arc(el.x, el.y, el.radius, 0, Math.PI * 2);
        ctx.fillStyle = el.color;
        ctx.fill();
      } else if (el.type === 'text') {
        ctx.font = `${el.fontSize}px sans-serif`;
        ctx.fillStyle = el.color;
        ctx.fillText(el.text, el.x, el.y);
      } else if (el.type === 'path') {
        if (!el.points || el.points.length < 2) continue;
        ctx.beginPath();
        ctx.lineWidth = el.strokeWidth || 2;
        ctx.strokeStyle = el.color;
        ctx.lineCap = 'round';
        const [start, ...rest] = el.points;
        ctx.moveTo(start.x, start.y);
        for (const p of rest) { ctx.lineTo(p.x, p.y); }
        ctx.stroke();
      } else if (el.type === 'image') {
        try {
          let imageSource = el.src;
          if (typeof el.src === 'string' && el.src.startsWith('data:')) {
              const base64Data = el.src.split(',')[1];
              if (base64Data) { imageSource = Buffer.from(base64Data, 'base64'); }
          }
          const img = await loadImage(imageSource);
          ctx.drawImage(img, el.x, el.y, el.width, el.height);
        } catch (err) {
          console.error('Failed to load image:', err.message);
        }
      }
    }
  }
  \<close>
\<close>

datatype 'img draw_op =
    SetFillStyle string
  | FillRect real real real real
  | BeginPath
  | Arc real real real real real
  | Fill
  | SetFont real
  | FillText jsstring real real
  | SetLineWidth real
  | SetStrokeStyle string
  | SetLineCap string
  | MoveTo real real
  | LineTo real real
  | Stroke
  | DrawImage 'img real real real real

datatype image_source = FromString string | FromBuffer string

text \<open>\<open>s.split(c)\<close> for a separator of one character.\<close>

fun splitOn :: "char \<Rightarrow> string \<Rightarrow> string list" where
  "splitOn c [] = [[]]"
| "splitOn c (x # xs) =
     (if x = c then [] # splitOn c xs
      else (case splitOn c xs of
              [] \<Rightarrow> [[x]]
            | w # ws \<Rightarrow> (x # w) # ws))"

definition imageSourceOf :: "string \<Rightarrow> image_source" where
  "imageSourceOf src =
     (if take 5 src = ''data:'' then
        (case js_index (splitOn CHR '','' src) 1 of
           None \<Rightarrow> FromString src
         | Some base64Data \<Rightarrow>
             if base64Data \<noteq> [] then FromBuffer base64Data else FromString src)
      else FromString src)"

fun drawElement :: "(image_source \<Rightarrow> string + 'img) \<Rightarrow> element \<Rightarrow> 'img draw_op list \<times> string list" where
  "drawElement load (Rect ex ey w h c) = ([SetFillStyle c, FillRect ex ey w h], [])"
| "drawElement load (Circle ex ey r c) =
     ([BeginPath, Arc ex ey r 0 (pi * 2), SetFillStyle c, Fill], [])"
| "drawElement load (Text ex ey t fs c) =
     ([SetFont fs, SetFillStyle c, FillText t ex ey], [])"
| "drawElement load (Path pts c sw) =
     (if length pts < 2 then ([], [])
      else (case pts of
              [] \<Rightarrow> ([], [])
            | start # rest \<Rightarrow>
                ([BeginPath, SetLineWidth (js_or sw 2), SetStrokeStyle c, SetLineCap ''round'',
                  MoveTo (px start) (py start)]
                 @ map (\<lambda>p. LineTo (px p) (py p)) rest @ [Stroke], [])))"
| "drawElement load (Image ex ey w h src) =
     (case load (imageSourceOf src) of
        Inr img \<Rightarrow> ([DrawImage img ex ey w h], [])
      | Inl message \<Rightarrow> ([], [''Failed to load image: '' @ message]))"

fun drawElements :: "(image_source \<Rightarrow> string + 'img) \<Rightarrow> element list \<Rightarrow> 'img draw_op list \<times> string list" where
  "drawElements load [] = ([], [])"
| "drawElements load (el # els) =
     (case drawElement load el of (ops, logged) \<Rightarrow>
        (case drawElements load els of (ops', logged') \<Rightarrow> (ops @ ops', logged @ logged')))"

text \<open>
  The route \<open>POST /export/pdf\<close>. The body follows the wire contract: a width, a height
  and an array of elements, each of which may be absent. What the canvas and PDF
  libraries do is left open: \<open>createCanvasOk\<close> says whether \<open>createCanvas\<close> returns
  for the given size, \<open>assembleOk\<close> whether \<open>toBuffer\<close> and the PDFKit calls return
  (a throw in the \<open>try\<close> block is answered with status 500).
  \<^verbatim>\<open>
  app.post('/export/pdf', async (req, res) => {
    const { width, height, elements } = req.body;
    if (!width || !height || !elements) {
      return res.status(400).json({ error: 'Missing required fields: width, height, elements' });
    }
    try {
      const canvas = createCanvas(width, height);
      const ctx = canvas.getContext('2d');
      await drawElements(ctx, elements);
      const doc = new PDFDocument({ autoFirstPage: false });
      res.setHeader('Content-Type', 'application/pdf');
      res.setHeader('Content-Disposition', 'attachment; filename="canvas-export.pdf"');
      doc.pipe(res);
      doc.addPage({ size: [width, height] });
      const buffer = canvas.toBuffer('image/png');
      doc.image(buffer, 0, 0, { width, height });
      doc.end();
    } catch (error) {
      console.error('PDF Export Error:', error);
      res.status(500).json({ error: 'Failed to generate PDF' });
    }
  });
  \<close>
\<close>

record export_request =
  reqWidth :: "real option"
  reqHeight :: "real option"
  reqElements :: "scene option"

record 'img document =
  pageWidth :: real
  pageHeight :: real
  raster :: "'img draw_op list"

datatype 'img response =
    JsonError nat string
  | PdfStream "'img document"

record 'img server =
  loadImage :: "image_source \<Rightarrow> string + 'img"
  createCanvasOk :: "real \<Rightarrow> real \<Rightarrow> bool"
  assembleOk :: "real \<Rightarrow> real \<Rightarrow> 'img draw_op list \<Rightarrow> bool"

text \<open>
  \<open>exportPdf\<close> is the route on a body whose fields, where present, have the types of
  the wire contract: two numbers and an array of elements. For these, \<open>!v\<close> holds of
  an absent field and of the number zero, and of no array. (\<open>exportRoute\<close> below takes
  any JSON value in a field.)
\<close>

definition falsyNumber :: "real option \<Rightarrow> bool" where
  "falsyNumber v = (case v of None \<Rightarrow> True | Some n \<Rightarrow> n = 0)"

definition falsyArray :: "'a list option \<Rightarrow> bool" where
  "falsyArray v = (case v of None \<Rightarrow> True | Some _ \<Rightarrow> False)"

definition exportPdf :: "'img server \<Rightarrow> export_request \<Rightarrow> 'img response \<times> string list" where
  "exportPdf srv req =
     (if falsyNumber (reqWidth req) \<or> falsyNumber (reqHeight req) \<or> falsyArray (reqElements req)
      then (JsonError 400 ''Missing required fields: width, height, elements'', [])
      else
        (case (reqWidth req, reqHeight req, reqElements req) of
           (Some width, Some height, Some els) \<Rightarrow>
             if \<not> createCanvasOk srv width height
             then (JsonError 500 ''Failed to generate PDF'', [''PDF Export Error''])
             else
               (case drawElements (loadImage srv) els of (ops, logged) \<Rightarrow>
                  if assembleOk srv width height ops
                  then (PdfStream \<lparr>pageWidth = width, pageHeight = height, raster = ops\<rparr>,
                        logged)
                  else (JsonError 500 ''Failed to generate PDF'',
                        logged @ [''PDF Export Error'']))
         | _ \<Rightarrow> (JsonError 400 ''Missing required fields: width, height, elements'', [])))"

text \<open>
  The body as \<open>express.json()\<close> delivers it: an object whose fields \<open>width\<close>,
  \<open>height\<close> and \<open>elements\<close> may be absent or hold any JSON value. The guard
  \<open>!width || !height || !elements\<close> tests truthiness: \<open>undefined\<close>, \<open>null\<close>, \<open>false\<close>,
  \<open>0\<close> and the empty string are falsy, every other value (every array and object
  too) is truthy. The value of \<open>elements\<close> is either an array of elements of the wire
  contract or some other JSON value.
\<close>

datatype json =
    JNull
  | JBool bool
  | JNumber real
  | JString string
  | JArray "json list"
  | JObject "(string \<times> json) list"

fun truthy :: "json \<Rightarrow> bool" where
  "truthy JNull = False"
| "truthy (JBool b) = b"
| "truthy (JNumber n) = (n \<noteq> 0)"
| "truthy (JString s) = (s \<noteq> [])"
| "truthy (JArray vs) = True"
| "truthy (JObject fs) = True"

datatype elements_value = Scene scene | NotScene json

record body =
  bodyWidth :: "json option"
  bodyHeight :: "json option"
  bodyElements :: "elements_value option"

definition falsy :: "json option \<Rightarrow> bool" where
  "falsy v = (case v of None \<Rightarrow> True | Some j \<Rightarrow> \<not> truthy j)"

definition falsyElements :: "elements_value option \<Rightarrow> bool" where
  "falsyElements v =
     (case v of None \<Rightarrow> True | Some (Scene els) \<Rightarrow> False | Some (NotScene j) \<Rightarrow> \<not> truthy j)"

text \<open>
  The route on such a body. Past the guard, a width and a height that are numbers and
  a scene run the \<open>try\<close> block as \<open>exportPdf\<close> has it. What the canvas and PDF
  libraries make of other truthy values is left open: \<open>offContract\<close> gives the
  document and the log, or no document when something in the \<open>try\<close> block throws,
  which the \<open>catch\<close> answers with status 500.
\<close>

definition exportRoute ::
  "(body \<Rightarrow> 'img document option \<times> string list) \<Rightarrow> 'img server \<Rightarrow> body
     \<Rightarrow> 'img response \<times> string list" where
  "exportRoute offContract srv b =
     (if falsy (bodyWidth b) \<or> falsy (bodyHeight b) \<or> falsyElements (bodyElements b)
      then (JsonError 400 ''Missing required fields: width, height, elements'', [])
      else
        (case (bodyWidth b, bodyHeight b, bodyElements b) of
           (Some (JNumber w), Some (JNumber h), Some (Scene els)) \<Rightarrow>
             exportPdf srv \<lparr>reqWidth = Some w, reqHeight = Some h, reqElements = Some els\<rparr>
         | _ \<Rightarrow>
             (case offContract b of
                (Some doc, logged) \<Rightarrow> (PdfStream doc, logged)
              | (None, logged) \<Rightarrow>
                  (JsonError 500 ''Failed to generate PDF'', logged @ [''PDF Export Error'']))))"

section \<open>Gestures and the stroke query of the canvas\<close>

text \<open>
  A pointer gesture on the raw-canvas component: one \<open>mousedown\<close>, any number of
  \<open>mousemove\<close> events, one \<open>mouseup\<close>.
\<close>

fun moves :: "env \<Rightarrow> point list \<Rightarrow> page \<times> canvas \<Rightarrow> (page \<times> canvas) option" where
  "moves e [] st = Some st"
| "moves e (p # ps) st = Option.bind (handleMouseMove e p st) (moves e ps)"

definition gesture :: "env \<Rightarrow> point \<Rightarrow> point list \<Rightarrow> page \<times> canvas \<Rightarrow> (page \<times> canvas) option" where
  "gesture e p0 ps st = map_option (handleMouseUp e) (moves e ps (handleMouseDown e p0 st))"

text \<open>
  \<open>ctx.isPointInStroke\<close> belongs to the browser. \<open>canvasStroke\<close> writes out what the
  HTML standard says it answers for the calls the handlers make, in the context state
  they find: \<open>lineJoin\<close> and \<open>miterLimit\<close> are never set by the component and keep
  their defaults (\<open>miter\<close>, 10); \<open>lineCap\<close> starts as \<open>butt\<close> and is \<open>round\<close> once
  the redraw has painted a path; no transform or dash is set. The assignment
  \<open>ctx.lineWidth = v\<close> is ignored unless \<open>v\<close> is positive, so the line width of the
  stroke is the requested one when positive and the one left in the context otherwise.
  Tracing the path prunes its zero-length lines and drops it when no line is left;
  the stroke is the union of the bands swept along its lines, the joins between them
  and the caps at its two ends, boundary included.
\<close>

definition dist2 :: "point \<Rightarrow> point \<Rightarrow> real" where
  "dist2 p q = (px p - px q)\<^sup>2 + (py p - py q)\<^sup>2"

definition along :: "point \<Rightarrow> point \<Rightarrow> real \<Rightarrow> point" where
  "along a b t = Point (px a + t * (px b - px a)) (py a + t * (py b - py a))"

text \<open>
  \<open>dotFrom p a b\<close> and \<open>crossFrom p a b\<close> are the scalar and the cross product of
  \<open>p - a\<close> with \<open>b - a\<close>.
\<close>

definition dotFrom :: "point \<Rightarrow> point \<Rightarrow> point \<Rightarrow> real" where
  "dotFrom p a b = (px p - px a) * (px b - px a) + (py p - py a) * (py b - py a)"

definition crossFrom :: "point \<Rightarrow> point \<Rightarrow> point \<Rightarrow> real" where
  "crossFrom p a b = (px b - px a) * (py p - py a) - (py b - py a) * (px p - px a)"

text \<open>
  The band swept along the line from \<open>a\<close> to \<open>b\<close> by a line of length \<open>2 * h\<close> held
  orthogonal to it: the foot of the perpendicular from \<open>p\<close> lies on the line and \<open>p\<close>
  is at most \<open>h\<close> away from it.
\<close>

definition inSweep :: "real \<Rightarrow> point \<Rightarrow> point \<Rightarrow> point \<Rightarrow> bool" where
  "inSweep h p a b =
     (0 \<le> dotFrom p a b \<and> dotFrom p a b \<le> dist2 b a \<and>
      (crossFrom p a b)\<^sup>2 \<le> h\<^sup>2 * dist2 b a)"

text \<open>
  The round cap at the end point \<open>e\<close> of a line coming from \<open>n\<close>: the half disc of
  radius \<open>h\<close> around \<open>e\<close> on the side away from \<open>n\<close>.
\<close>

definition inRoundCap :: "real \<Rightarrow> point \<Rightarrow> point \<Rightarrow> point \<Rightarrow> bool" where
  "inRoundCap h p e n = (dist2 p e \<le> h\<^sup>2 \<and> dotFrom p e n \<le> 0)"

text \<open>
  The miter join at \<open>b\<close> between the lines from \<open>a\<close> and to \<open>c\<close>. The two outer
  corners lie at distance \<open>h\<close> from \<open>b\<close>, perpendicular to each line, on the side away
  from the other line. The triangle of \<open>b\<close> and the two corners is always part of the
  stroke; the triangle between the corners and the meeting point of the two outer
  edges is added when the miter length is at most \<open>miterLimit = 10\<close> times \<open>h\<close>, that
  is when the cosine of the angle at \<open>b\<close> is at most \<open>49 / 50\<close>. \<open>o1\<close> and \<open>o2\<close> are
  the distances of \<open>p\<close> from the two lines towards the outer side, times the lengths
  of the lines. Lines that continue straight or turn back have no join area.
\<close>

definition inJoin :: "real \<Rightarrow> point \<Rightarrow> point \<Rightarrow> point \<Rightarrow> point \<Rightarrow> bool" where
  "inJoin h p a b c =
     (let turn = crossFrom c a b;
          o1 = (if 0 < turn then - crossFrom p a b else crossFrom p a b);
          o2 = (if 0 < turn then - crossFrom p b c else crossFrom p b c);
          len1 = sqrt (dist2 b a);
          len2 = sqrt (dist2 c b)
      in turn \<noteq> 0 \<and> dotFrom p b a \<le> 0 \<and> dotFrom p b c \<le> 0 \<and>
         (if dotFrom a b c \<le> 49 / 50 * len1 * len2
          then (o1 \<le> 0 \<or> o1\<^sup>2 \<le> h\<^sup>2 * dist2 b a) \<and> (o2 \<le> 0 \<or> o2\<^sup>2 \<le> h\<^sup>2 * dist2 c b)
          else o1 * len2 + o2 * len1 \<le> h * (len1 * len2 - dotFrom a b c)))"

fun segments :: "point list \<Rightarrow> (point \<times> point) list" where
  "segments (a # b # rest) = (a, b) # segments (b # rest)"
| "segments _ = []"

fun joints :: "point list \<Rightarrow> (point \<times> point \<times> point) list" where
  "joints (a # b # c # rest) = (a, b, c) # joints (b # c # rest)"
| "joints _ = []"

datatype lineCap = Butt | Round

record context2d =
  ctxLineWidth :: real
  ctxLineCap :: lineCap

definition canvasStroke :: "context2d \<Rightarrow> real \<Rightarrow> point list \<Rightarrow> point \<Rightarrow> bool" where
  "canvasStroke ctx requested vertices p =
     (let lineWidth = (if 0 < requested then requested else ctxLineWidth ctx);
          h = lineWidth / 2;
          path = remdups_adj vertices
      in case path of
           a # b # rest \<Rightarrow>
             list_ex (\<lambda>(u, v). inSweep h p u v) (segments path) \<or>
             list_ex (\<lambda>(u, v, w). inJoin h p u v w) (joints path) \<or>
             (ctxLineCap ctx = Round \<and>
                (inRoundCap h p a b \<or> inRoundCap h p (last path) (last (butlast path))))
         | _ \<Rightarrow> False)"

text \<open>
  The distance from a point to a segment, squared: \<open>segDist2 p a b\<close> is taken at the
  foot of the perpendicular clamped to the segment. \<open>isFoot p a b t\<close> says that
  \<open>along a b t\<close> is the foot of the perpendicular from \<open>p\<close> to the line through \<open>a\<close>
  and \<open>b\<close>.
\<close>

definition segDist2 :: "point \<Rightarrow> point \<Rightarrow> point \<Rightarrow> real" where
  "segDist2 p a b =
     (let len2 = dist2 b a in
      if len2 = 0 then dist2 p a
      else
        (let t0 = dotFrom p a b / len2;
             t = max 0 (min 1 t0)
         in dist2 p (along a b t)))"

definition isFoot :: "point \<Rightarrow> point \<Rightarrow> point \<Rightarrow> real \<Rightarrow> bool" where
  "isFoot p a b t =
     ((px p - px (along a b t)) * (px b - px a) + (py p - py (along a b t)) * (py b - py a) = 0)"

text \<open>
  An inline text-editing session: a click with the text tool, the changes of the input
  (each \<open>onChange\<close> carries the whole new value), and the blur that ends it.
\<close>

definition textSession :: "env \<Rightarrow> point \<Rightarrow> jsstring list \<Rightarrow> page \<times> canvas \<Rightarrow> page \<times> canvas" where
  "textSession e pos edits st = onBlur e (fold onChange edits (handleMouseDown e pos st))"

section \<open>Scenarios\<close>

text \<open>
  Concrete editing sessions used to run the definitions: an environment for each tool
  (colour \<open>#000000\<close>, stroke width 2, no answer to the prompt) and a page on which one
  rectangle has been added. The scenes of these sessions hold no path, so the stroke
  query is never asked; the environment answers it with no.
\<close>

definition toolEnv :: "tool \<Rightarrow> env" where
  "toolEnv t = \<lparr>activeTool = t, currentColor = ''#000000'', currentStrokeWidth = 2,
     isPointInStroke = (\<lambda>lineWidth vertices p. False), promptAnswer = None\<rparr>"

definition rectPage :: page where
  "rectPage = handleAddElement (Rect 10 10 100 100 ''red'') initialPage"

text \<open>
  A server for running exports: its loader decodes embedded image data and cannot reach
  any URL, and the canvas and PDF libraries never throw.
\<close>

definition offlineLoad :: "image_source \<Rightarrow> string + string" where
  "offlineLoad s = (case s of FromBuffer b \<Rightarrow> Inr b | FromString u \<Rightarrow> Inl ''getaddrinfo ENOTFOUND'')"

definition offlineServer :: "string server" where
  "offlineServer = \<lparr>loadImage = offlineLoad, createCanvasOk = (\<lambda>w h. True),
     assembleOk = (\<lambda>w h ops. True)\<rparr>"

text \<open>Libraries that throw on every value outside the wire contract.\<close>

definition strictLibraries :: "body \<Rightarrow> string document option \<times> string list" where
  "strictLibraries b = (None, [])"

section \<open>The history manager\<close>

lemma addToHistory_simps:
  "history (addToHistory S s) = take (historyIndex s + 1) (history s) @ [S]"
  "historyIndex (addToHistory S s) = length (take (historyIndex s + 1) (history s))"
  "elements (addToHistory S s) = S"
  by (simp_all add: addToHistory_def Let_def)

lemma handleUndo_inv:
  assumes "historyIndex s < length (history s)" "elements s = history s ! historyIndex s"
  shows "\<exists>s'. handleUndo s = Some s' \<and> history s' = history s
           \<and> historyIndex s' < length (history s) \<and> elements s' = history s ! historyIndex s'"
  using assms by (auto simp: handleUndo_def js_index_def Let_def)

lemma handleRedo_inv:
  assumes "historyIndex s < length (history s)" "elements s = history s ! historyIndex s"
  shows "\<exists>s'. handleRedo s = Some s' \<and> history s' = history s
           \<and> historyIndex s' < length (history s) \<and> elements s' = history s ! historyIndex s'"
  using assms by (auto simp: handleRedo_def js_index_def Let_def)

lemma navigate_inv:
  assumes "historyIndex s < length (history s)" "elements s = history s ! historyIndex s"
  shows "\<exists>s'. navigate ns s = Some s' \<and> history s' = history s
           \<and> historyIndex s' < length (history s) \<and> elements s' = history s ! historyIndex s'"
  using assms
proof (induction ns arbitrary: s)
  case Nil
  then show ?case by simp
next
  case (Cons n ns)
  show ?case
  proof (cases n)
    case Undo
    from handleUndo_inv[OF Cons.prems] obtain s1 where s1: "handleUndo s = Some s1"
      "history s1 = history s" "historyIndex s1 < length (history s)"
      "elements s1 = history s ! historyIndex s1" by blast
    from Cons.IH[of s1] s1 Undo show ?thesis by simp
  next
    case Redo
    from handleRedo_inv[OF Cons.prems] obtain s1 where s1: "handleRedo s = Some s1"
      "history s1 = history s" "historyIndex s1 < length (history s)"
      "elements s1 = history s ! historyIndex s1" by blast
    from Cons.IH[of s1] s1 Redo show ?thesis by simp
  qed
qed

text \<open>
  C2. When the cursor is not at the last index, \<open>addToHistory\<close> drops the snapshots
  after the cursor, appends the new scene and moves the cursor to the new last index.
  Afterwards redo is not possible, and whatever sequence of undo and redo follows, the
  history stays the truncated one and the scene shown is the entry under the cursor:
  the dropped snapshots cannot come back.
\<close>

theorem commit_truncates_forward_history:
  assumes "int (historyIndex s) < int (length (history s)) - 1"
  shows "history (addToHistory S s) = take (historyIndex s + 1) (history s) @ [S]
       \<and> length (history (addToHistory S s)) = historyIndex s + 2
       \<and> historyIndex (addToHistory S s) = historyIndex s + 1
       \<and> elements (addToHistory S s) = S
       \<and> \<not> canRedo (addToHistory S s)
       \<and> (\<forall>ns. \<exists>s'. navigate ns (addToHistory S s) = Some s'
             \<and> history s' = take (historyIndex s + 1) (history s) @ [S]
             \<and> historyIndex s' \<le> historyIndex s + 1
             \<and> elements s' = (take (historyIndex s + 1) (history s) @ [S]) ! historyIndex s')"
proof -
  let ?c = "addToHistory S s"
  from assms have len: "length (take (historyIndex s + 1) (history s)) = historyIndex s + 1"
    by simp
  have h: "history ?c = take (historyIndex s + 1) (history s) @ [S]"
    and i: "historyIndex ?c = historyIndex s + 1" and e: "elements ?c = S"
    using len by (simp_all add: addToHistory_simps)
  have inv1: "historyIndex ?c < length (history ?c)" using h i len by simp
  have inv2: "elements ?c = history ?c ! historyIndex ?c"
    using h i e len by (simp add: nth_append)
  have nav: "\<exists>s'. navigate ns ?c = Some s'
             \<and> history s' = take (historyIndex s + 1) (history s) @ [S]
             \<and> historyIndex s' \<le> historyIndex s + 1
             \<and> elements s' = (take (historyIndex s + 1) (history s) @ [S]) ! historyIndex s'" for ns
    using navigate_inv[OF inv1 inv2, of ns] h len by auto
  have "\<not> canRedo ?c" using h i len by (simp add: canRedo_def)
  with h i e len nav show ?thesis by simp
qed

theorem commit_truncates_forward_history_witness:
  "int (historyIndex \<lparr>elements = [], history = [[], [Circle 1 2 3 ''red''], [Circle 1 2 3 ''red'', Circle 4 5 6 ''blue'']], historyIndex = 0\<rparr>)
     < int (length (history \<lparr>elements = [], history = [[], [Circle 1 2 3 ''red''], [Circle 1 2 3 ''red'', Circle 4 5 6 ''blue'']], historyIndex = 0\<rparr>)) - 1
   \<and> history (addToHistory [Rect 0 0 10 10 ''green'']
        \<lparr>elements = [], history = [[], [Circle 1 2 3 ''red''], [Circle 1 2 3 ''red'', Circle 4 5 6 ''blue'']], historyIndex = 0\<rparr>)
      = [[], [Rect 0 0 10 10 ''green'']]
   \<and> \<not> canRedo (addToHistory [Rect 0 0 10 10 ''green'']
        \<lparr>elements = [], history = [[], [Circle 1 2 3 ''red''], [Circle 1 2 3 ''red'', Circle 4 5 6 ''blue'']], historyIndex = 0\<rparr>)
   \<and> (\<forall>ns. \<exists>s'. navigate ns (addToHistory [Rect 0 0 10 10 ''green'']
        \<lparr>elements = [], history = [[], [Circle 1 2 3 ''red''], [Circle 1 2 3 ''red'', Circle 4 5 6 ''blue'']], historyIndex = 0\<rparr>) = Some s'
         \<and> history s' = [[], [Rect 0 0 10 10 ''green'']]
         \<and> historyIndex s' \<le> 1
         \<and> elements s' = [[], [Rect 0 0 10 10 ''green'']] ! historyIndex s')"
  using commit_truncates_forward_history
    [of "\<lparr>elements = [], history = [[], [Circle 1 2 3 ''red''], [Circle 1 2 3 ''red'', Circle 4 5 6 ''blue'']], historyIndex = 0\<rparr>"
        "[Rect 0 0 10 10 ''green'']"]
  by simp

text \<open>
  C3. Committing a scene, then undo, then redo gives back the state right after the
  commit, so the scene shown is the committed one. Undo with the cursor at 0 and redo
  with the cursor at the last index change nothing.
\<close>

theorem commit_undo_redo_roundtrip:
  "Option.bind (handleUndo (addToHistory S s)) handleRedo = Some (addToHistory S s)
   \<and> (\<exists>s'. Option.bind (handleUndo (addToHistory S s)) handleRedo = Some s' \<and> elements s' = S)
   \<and> (historyIndex s = 0 \<longrightarrow> handleUndo s = Some s)
   \<and> (int (historyIndex s) = int (length (history s)) - 1 \<longrightarrow> handleRedo s = Some s)"
  by (auto simp: handleUndo_def handleRedo_def addToHistory_def js_index_def Let_def nth_append min_def)

theorem commit_undo_redo_roundtrip_witness:
  "historyIndex initialPage = 0
   \<and> int (historyIndex initialPage) = int (length (history initialPage)) - 1
   \<and> handleUndo initialPage = Some initialPage
   \<and> handleRedo initialPage = Some initialPage
   \<and> Option.bind (handleUndo (addToHistory [Rect 0 0 10 10 ''green''] initialPage)) handleRedo
       = Some (addToHistory [Rect 0 0 10 10 ''green''] initialPage)"
  using commit_undo_redo_roundtrip [of "[Rect 0 0 10 10 ''green'']" initialPage]
  by (simp add: initialPage_def)

section \<open>Dragging with the select tool\<close>











section \<open>Hit testing and resize handles\<close>

lemma sqrt_le_iff_sq: "0 \<le> r \<Longrightarrow> (sqrt a \<le> r) = (a \<le> r\<^sup>2)"
proof -
  assume r: "0 \<le> r"
  then have "sqrt (r\<^sup>2) = r" by simp
  then have "(sqrt a \<le> r) = (sqrt a \<le> sqrt (r\<^sup>2))" by simp
  also have "\<dots> = (a \<le> r\<^sup>2)" by (rule real_sqrt_le_iff)
  finally show ?thesis .
qed

lemma boxHit_normalized:
  "boxHit pos ex ey w h = boxHit pos (min ex (ex + w)) (min ey (ey + h)) \<bar>w\<bar> \<bar>h\<bar>"
  by (auto simp: boxHit_def Let_def min_def)

text \<open>
  C5 (the code departs from the claim). For a circle with centre \<open>(100, 100)\<close> and
  radius 50 the handle zones sit at \<open>(x, y)\<close>, \<open>(x + 2r, y)\<close>, \<open>(x, y + 2r)\<close> and
  \<open>(x + 2r, y + 2r)\<close>, as if \<open>x, y\<close> were the top-left corner of the bounding box:
  the corner \<open>(50, 50)\<close> of the box around the drawn circle is no handle, the centre
  is the \<open>nw\<close> handle, and the \<open>se\<close> handle at \<open>(200, 200)\<close> lies outside the circle
  that the hit test, which takes \<open>x, y\<close> as the centre, accepts.
\<close>

theorem circle_handles_at_top_left_box:
  "handleCorners (Circle ex ey r c)
     = [(NW, ex, ey), (NE, ex + r * 2, ey), (SW, ex, ey + r * 2), (SE, ex + r * 2, ey + r * 2)]
   \<and> getResizeHandle 50 50 (Circle 100 100 50 ''red'') = None
   \<and> getResizeHandle 100 100 (Circle 100 100 50 ''red'') = Some NW
   \<and> getResizeHandle 200 200 (Circle 100 100 50 ''red'') = Some SE
   \<and> hitSelect q (Point 200 200) (Circle 100 100 50 ''red'') = False
   \<and> hitSelect q (Point 100 100) (Circle 100 100 50 ''red'') = True"
  by (simp add: getResizeHandle_def inHandleZone_def HANDLE_SIZE_def hitSelect_def
      sqrt_le_iff_sq Let_def)

text \<open>
  C6. The hit test of a rectangle or an image with negative width or height, by the
  select tool and by the eraser, gives the same answer as for the equivalent element
  with origin \<open>(min x (x + w), min y (y + h))\<close> and size \<open>(|w|, |h|)\<close>: the point is
  tested against the normalized box.
\<close>

theorem hit_test_normalizes_negative_size:
  "hitSelect q pos (Rect ex ey w h c) = hitSelect q pos (Rect (min ex (ex + w)) (min ey (ey + h)) \<bar>w\<bar> \<bar>h\<bar> c)
 \<and> hitEraser q pos (Rect ex ey w h c) = hitEraser q pos (Rect (min ex (ex + w)) (min ey (ey + h)) \<bar>w\<bar> \<bar>h\<bar> c)
 \<and> hitSelect q pos (Image ex ey w h src) = hitSelect q pos (Image (min ex (ex + w)) (min ey (ey + h)) \<bar>w\<bar> \<bar>h\<bar> src)
 \<and> hitEraser q pos (Image ex ey w h src) = hitEraser q pos (Image (min ex (ex + w)) (min ey (ey + h)) \<bar>w\<bar> \<bar>h\<bar> src)
 \<and> hitSelect q pos (Rect ex ey w h c)
      = (min ex (ex + w) \<le> px pos \<and> px pos \<le> min ex (ex + w) + \<bar>w\<bar> \<and>
         min ey (ey + h) \<le> py pos \<and> py pos \<le> min ey (ey + h) + \<bar>h\<bar>)"
  unfolding hitSelect_def hitEraser_def hitWith.simps
  using boxHit_normalized [of pos ex ey w h]
  by (auto simp: boxHit_def Let_def min_def)

theorem hit_test_normalizes_negative_size_witness:
  "hitSelect (isPointInStroke (toolEnv Select)) (Point 80 95) (Rect 100 100 (-50) (-20) ''red'')
     = hitSelect (isPointInStroke (toolEnv Select)) (Point 80 95) (Rect 50 80 50 20 ''red'')
   \<and> hitSelect (isPointInStroke (toolEnv Select)) (Point 80 95) (Rect 100 100 (-50) (-20) ''red'')
   \<and> hitEraser (isPointInStroke (toolEnv Eraser)) (Point 80 95) (Rect 50 80 50 20 ''red'')"
  using hit_test_normalizes_negative_size
    [of "isPointInStroke (toolEnv Select)" "Point 80 95" 100 100 "-50" "-20" "''red''" "''src''"]
  by (simp add: hitSelect_def hitEraser_def boxHit_def)

section \<open>Inline text editing\<close>

lemma js_trim_empty_iff: "(js_trim s = []) = list_all isWhiteSpace s"
proof -
  have "(js_trim s = []) = (\<forall>c \<in> set (dropWhile isWhiteSpace s). isWhiteSpace c)"
    by (simp only: js_trim_def rev_is_Nil_conv dropWhile_eq_Nil_conv set_rev)
  also have "\<dots> = (dropWhile isWhiteSpace s = [])"
  proof (cases "dropWhile isWhiteSpace s")
    case Nil
    show ?thesis unfolding Nil by simp
  next
    case (Cons c cs)
    then have "\<not> isWhiteSpace c" using hd_dropWhile[of isWhiteSpace s] by simp
    then show ?thesis unfolding Cons by auto
  qed
  also have "\<dots> = list_all isWhiteSpace s"
    by (simp add: dropWhile_eq_Nil_conv list_all_iff)
  finally show ?thesis .
qed

lemma fold_onChange:
  "editingText cv = Some ed \<Longrightarrow>
   fold onChange vs (pg, cv)
     = (pg, cv\<lparr>editingText := Some (ed\<lparr>editValue := last (editValue ed # vs)\<rparr>)\<rparr>)"
proof (induction vs arbitrary: cv ed)
  case Nil
  then show ?case by simp
next
  case (Cons v vs)
  let ?cv1 = "cv\<lparr>editingText := Some (ed\<lparr>editValue := v\<rparr>)\<rparr>"
  have step: "onChange v (pg, cv) = (pg, ?cv1)" using Cons.prems by (simp add: onChange_def)
  have "editingText ?cv1 = Some (ed\<lparr>editValue := v\<rparr>)" by simp
  from Cons.IH[OF this] step show ?case by simp
qed

text \<open>
  C10. A text-editing session is a click with the text tool, changes of the input and
  a blur (pressing Enter blurs the input). If the last value of the input is empty or
  consists of white space only, the page (scene, history and cursor) is unchanged.
  Otherwise one text element with the entered value, font size 24, the current colour
  and the click position is appended to the scene, and that scene is committed as a
  new snapshot. Either way the input is closed.
\<close>

theorem text_commit_needs_non_whitespace:
  assumes "activeTool e = TextTool"
  shows "(list_all isWhiteSpace (last ([] # edits)) \<longrightarrow>
            fst (textSession e pos edits (pg, cv)) = pg)
       \<and> (\<not> list_all isWhiteSpace (last ([] # edits)) \<longrightarrow>
            fst (textSession e pos edits (pg, cv))
              = \<lparr>elements = elements pg
                     @ [Text (px pos) (py pos) (last ([] # edits)) 24 (currentColor e)],
                 history = take (historyIndex pg + 1) (history pg)
                     @ [elements pg
                          @ [Text (px pos) (py pos) (last ([] # edits)) 24 (currentColor e)]],
                 historyIndex = length (take (historyIndex pg + 1) (history pg))\<rparr>)
       \<and> editingText (snd (textSession e pos edits (pg, cv))) = None
       \<and> onKeyDown e ''Enter'' (fold onChange edits (handleMouseDown e pos (pg, cv)))
            = textSession e pos edits (pg, cv)"
proof -
  let ?cv1 = "cv\<lparr>isDrawing := True, startPos := Some pos, currentPos := Some pos\<rparr>
               \<lparr>editingText := Some \<lparr>editX = px pos, editY = py pos, editValue = []\<rparr>,
                isDrawing := False\<rparr>"
  have down: "handleMouseDown e pos (pg, cv) = (pg, ?cv1)"
    using assms by (simp add: handleMouseDown_def Let_def)
  have ed: "editingText ?cv1 = Some \<lparr>editX = px pos, editY = py pos, editValue = []\<rparr>"
    by simp
  note typed = fold_onChange[OF ed, of edits pg]
  show ?thesis
    unfolding textSession_def onKeyDown_def down typed
    by (simp add: onBlur_def js_trim_empty_iff handleAddElement_def addToHistory_def Let_def)
qed

theorem text_commit_needs_non_whitespace_witness:
  "activeTool (toolEnv TextTool) = TextTool
   \<and> list_all isWhiteSpace [0x20, 0x09]
   \<and> fst (textSession (toolEnv TextTool) (Point 50 50) [[0x48], [0x20, 0x09]] (rectPage, initialCanvas))
       = rectPage
   \<and> \<not> list_all isWhiteSpace [0x48, 0x69]
   \<and> fst (textSession (toolEnv TextTool) (Point 50 50) [[0x48], [0x48, 0x69]] (rectPage, initialCanvas))
       = \<lparr>elements = [Rect 10 10 100 100 ''red'', Text 50 50 [0x48, 0x69] 24 ''#000000''],
          history = [[], [Rect 10 10 100 100 ''red''],
                     [Rect 10 10 100 100 ''red'', Text 50 50 [0x48, 0x69] 24 ''#000000'']],
          historyIndex = 2\<rparr>"
proof -
  have t: "activeTool (toolEnv TextTool) = TextTool" by (simp add: toolEnv_def)
  have w: "list_all isWhiteSpace [0x20, 0x09]" by (simp add: isWhiteSpace_def)
  have n: "\<not> list_all isWhiteSpace [0x48, 0x69]" by (simp add: isWhiteSpace_def)
  have rp: "rectPage = \<lparr>elements = [Rect 10 10 100 100 ''red''],
     history = [[], [Rect 10 10 100 100 ''red'']], historyIndex = 1\<rparr>"
    by (simp add: rectPage_def handleAddElement_def addToHistory_def initialPage_def)
  from text_commit_needs_non_whitespace[OF t, of "[[0x48], [0x20, 0x09]]" "Point 50 50" rectPage initialCanvas] w
  have a: "fst (textSession (toolEnv TextTool) (Point 50 50) [[0x48], [0x20, 0x09]] (rectPage, initialCanvas))
       = rectPage" by simp
  from text_commit_needs_non_whitespace[OF t, of "[[0x48], [0x48, 0x69]]" "Point 50 50" rectPage initialCanvas] n
  have b: "fst (textSession (toolEnv TextTool) (Point 50 50) [[0x48], [0x48, 0x69]] (rectPage, initialCanvas))
       = \<lparr>elements = [Rect 10 10 100 100 ''red'', Text 50 50 [0x48, 0x69] 24 ''#000000''],
          history = [[], [Rect 10 10 100 100 ''red''],
                     [Rect 10 10 100 100 ''red'', Text 50 50 [0x48, 0x69] 24 ''#000000'']],
          historyIndex = 2\<rparr>"
    by (simp add: rp toolEnv_def)
  from t w a n b show ?thesis by blast
qed

section \<open>Committing drawn shapes\<close>

text \<open>
  C4 (the code departs from the claim). The raw-canvas component commits on
  pointer-up whatever was drawn: a rectangle of 2 by 2, the rectangle of 0 by 0 that a
  bare click leaves, a circle of radius 0 and a path of one point all enter the scene
  and the history, although the renderer paints nothing for a path of fewer than 2 points. The
  Konva component checks the shape before adding it, but looks only at the width of a
  rectangle and compares strictly: it commits a rectangle of 10 by 2 and drops a
  rectangle of 5 by 5 and a path of 2 points.
\<close>

theorem small_shapes_are_committed:
  "map_option fst
      (gesture (toolEnv RectTool) (Point 10 10) [Point 12 12] (initialPage, initialCanvas))
     = Some \<lparr>elements = [Rect 10 10 2 2 ''#000000''],
              history = [[], [Rect 10 10 2 2 ''#000000'']], historyIndex = 1\<rparr>
   \<and> map_option (elements \<circ> fst)
      (gesture (toolEnv RectTool) (Point 10 10) [] (initialPage, initialCanvas))
     = Some [Rect 10 10 0 0 ''#000000'']
   \<and> map_option (elements \<circ> fst)
      (gesture (toolEnv CircleTool) (Point 10 10) [] (initialPage, initialCanvas))
     = Some [Circle 10 10 0 ''#000000'']
   \<and> map_option (elements \<circ> fst)
      (gesture (toolEnv Pencil) (Point 10 10) [] (initialPage, initialCanvas))
     = Some [Path [Point 10 10] ''#000000'' 2]
   \<and> drawElement load (Path [Point 10 10] ''#000000'' 2) = ([], [])
   \<and> elements (fst (konvaMouseUp (initialPage, \<lparr>kIsDrawing = True, kStartPos = Some (Point 0 0),
                    newShape = Some (Rect 0 0 10 2 ''#000000'')\<rparr>)))
     = [Rect 0 0 10 2 ''#000000'']
   \<and> elements (fst (konvaMouseUp (initialPage, \<lparr>kIsDrawing = True, kStartPos = Some (Point 0 0),
                    newShape = Some (Rect 0 0 5 5 ''#000000'')\<rparr>)))
     = []
   \<and> elements (fst (konvaMouseUp (initialPage, \<lparr>kIsDrawing = True, kStartPos = Some (Point 0 0),
                    newShape = Some (Path [Point 0 0, Point 9 9] ''#000000'' 2)\<rparr>)))
     = []"
  by (simp add: gesture_def toolEnv_def initialPage_def initialCanvas_def handleMouseDown_def
      handleMouseMove_def handleMouseUp_def drawnShape_def handleAddElement_def
      addToHistory_def konvaMouseUp_def Let_def)

section \<open>The export route\<close>

lemma drawElements_append:
  "drawElements load (xs @ ys) =
     (fst (drawElements load xs) @ fst (drawElements load ys),
      snd (drawElements load xs) @ snd (drawElements load ys))"
  by (induction xs) (simp_all split: prod.splits)

lemma drawElements_failed_image:
  assumes "load (imageSourceOf src) = Inl msg"
  shows "drawElements load (Image ex ey w h src # after) =
     (fst (drawElements load after),
      (''Failed to load image: '' @ msg) # snd (drawElements load after))"
  using assms by (simp split: prod.splits)

lemma falsy_cases:
  "falsy v = (v = None \<or> v = Some JNull \<or> v = Some (JBool False) \<or> v = Some (JNumber 0)
              \<or> v = Some (JString []))"
proof (cases v)
  case None
  then show ?thesis by (simp add: falsy_def)
next
  case (Some j)
  then show ?thesis by (cases j) (auto simp: falsy_def)
qed

lemma exportRoute_rejects:
  "falsy (bodyWidth b) \<or> falsy (bodyHeight b) \<or> falsyElements (bodyElements b) \<Longrightarrow>
   exportRoute offContract srv b
     = (JsonError 400 ''Missing required fields: width, height, elements'', [])"
  by (simp add: exportRoute_def)

lemma exportRoute_renders:
  assumes "\<not> falsy (bodyWidth b)" "\<not> falsy (bodyHeight b)" "\<not> falsyElements (bodyElements b)"
  shows "(\<exists>doc. fst (exportRoute offContract srv b) = PdfStream doc)
         \<or> fst (exportRoute offContract srv b) = JsonError 500 ''Failed to generate PDF''"
proof -
  obtain jw jh ev where f: "bodyWidth b = Some jw" "bodyHeight b = Some jh" "bodyElements b = Some ev"
    using assms by (auto simp: falsy_def falsyElements_def split: option.splits)
  show ?thesis
  proof (cases "\<exists>w h els. jw = JNumber w \<and> jh = JNumber h \<and> ev = Scene els")
    case True
    then obtain w h els where t: "jw = JNumber w" "jh = JNumber h" "ev = Scene els" by blast
    with assms f have nz: "w \<noteq> 0" "h \<noteq> 0" by (simp_all add: falsy_def)
    have "exportRoute offContract srv b
        = exportPdf srv \<lparr>reqWidth = Some w, reqHeight = Some h, reqElements = Some els\<rparr>"
      using assms f t by (simp add: exportRoute_def)
    then show ?thesis using nz
      by (auto simp: exportPdf_def falsyNumber_def falsyArray_def split: prod.splits)
  next
    case False
    then have "exportRoute offContract srv b
        = (case offContract b of
             (Some doc, logged) \<Rightarrow> (PdfStream doc, logged)
           | (None, logged) \<Rightarrow>
               (JsonError 500 ''Failed to generate PDF'', logged @ [''PDF Export Error'']))"
      using assms f
      by (auto simp: exportRoute_def split: json.splits elements_value.splits)
    then show ?thesis by (auto split: prod.splits option.splits)
  qed
qed

text \<open>
  C8 (as amended). An export request in which the width, the height or the elements
  field is missing or holds a falsy value (\<open>null\<close>, \<open>false\<close>, \<open>0\<close> or the empty
  string) is answered with status 400 and the body
  \<open>{error: 'Missing required fields: width, height, elements'}\<close>; nothing is drawn,
  logged or produced. A request in which all three fields hold truthy values goes on
  to rendering: the answer is a document or, when something in the \<open>try\<close> block
  throws, status 500, never the validation error. For a width and a height that are
  numbers other than 0 and a scene, the document has a page of the requested size and
  its raster holds what \<open>drawElements\<close> painted.
\<close>

theorem export_guard_is_truthiness:
  "((bodyWidth b = None \<or> bodyHeight b = None \<or> bodyElements b = None) \<longrightarrow>
       exportRoute offContract srv b
         = (JsonError 400 ''Missing required fields: width, height, elements'', []))
   \<and> ((falsy (bodyWidth b) \<or> falsy (bodyHeight b) \<or> falsyElements (bodyElements b)) \<longrightarrow>
       exportRoute offContract srv b
         = (JsonError 400 ''Missing required fields: width, height, elements'', []))
   \<and> ((\<not> falsy (bodyWidth b) \<and> \<not> falsy (bodyHeight b)
          \<and> \<not> falsyElements (bodyElements b)) \<longrightarrow>
       ((\<exists>doc. fst (exportRoute offContract srv b) = PdfStream doc)
         \<or> fst (exportRoute offContract srv b) = JsonError 500 ''Failed to generate PDF''))
   \<and> ((bodyWidth b = Some (JNumber w) \<and> w \<noteq> 0 \<and> bodyHeight b = Some (JNumber h) \<and> h \<noteq> 0
        \<and> bodyElements b = Some (Scene els)) \<longrightarrow>
       fst (exportRoute offContract srv b) =
         (if createCanvasOk srv w h
              \<and> assembleOk srv w h (fst (drawElements (loadImage srv) els))
          then PdfStream \<lparr>pageWidth = w, pageHeight = h,
                           raster = fst (drawElements (loadImage srv) els)\<rparr>
          else JsonError 500 ''Failed to generate PDF''))
   \<and> falsy v = (v = None \<or> v = Some JNull \<or> v = Some (JBool False) \<or> v = Some (JNumber 0)
              \<or> v = Some (JString []))
   \<and> falsyElements ev = (ev = None \<or> ev = Some (NotScene JNull)
              \<or> ev = Some (NotScene (JBool False)) \<or> ev = Some (NotScene (JNumber 0))
              \<or> ev = Some (NotScene (JString [])))"
proof -
  have missing: "(bodyWidth b = None \<or> bodyHeight b = None \<or> bodyElements b = None) \<longrightarrow>
       exportRoute offContract srv b
         = (JsonError 400 ''Missing required fields: width, height, elements'', [])"
    using exportRoute_rejects[of b offContract srv]
    by (auto simp: falsy_def falsyElements_def)
  have rejected: "(falsy (bodyWidth b) \<or> falsy (bodyHeight b) \<or> falsyElements (bodyElements b)) \<longrightarrow>
       exportRoute offContract srv b
         = (JsonError 400 ''Missing required fields: width, height, elements'', [])"
    using exportRoute_rejects[of b offContract srv] by blast
  have rendered: "(\<not> falsy (bodyWidth b) \<and> \<not> falsy (bodyHeight b)
          \<and> \<not> falsyElements (bodyElements b)) \<longrightarrow>
       ((\<exists>doc. fst (exportRoute offContract srv b) = PdfStream doc)
         \<or> fst (exportRoute offContract srv b) = JsonError 500 ''Failed to generate PDF'')"
    using exportRoute_renders[of b offContract srv] by blast
  have typed: "(bodyWidth b = Some (JNumber w) \<and> w \<noteq> 0 \<and> bodyHeight b = Some (JNumber h) \<and> h \<noteq> 0
        \<and> bodyElements b = Some (Scene els)) \<longrightarrow>
       fst (exportRoute offContract srv b) =
         (if createCanvasOk srv w h
              \<and> assembleOk srv w h (fst (drawElements (loadImage srv) els))
          then PdfStream \<lparr>pageWidth = w, pageHeight = h,
                           raster = fst (drawElements (loadImage srv) els)\<rparr>
          else JsonError 500 ''Failed to generate PDF'')"
    by (auto simp: exportRoute_def falsy_def falsyElements_def exportPdf_def falsyNumber_def
        falsyArray_def split: prod.splits)
  have fe: "falsyElements ev = (ev = None \<or> ev = Some (NotScene JNull)
              \<or> ev = Some (NotScene (JBool False)) \<or> ev = Some (NotScene (JNumber 0))
              \<or> ev = Some (NotScene (JString [])))"
  proof (cases ev)
    case None
    then show ?thesis by (simp add: falsyElements_def)
  next
    case (Some x)
    show ?thesis
    proof (cases x)
      case (Scene els')
      with Some show ?thesis by (simp add: falsyElements_def)
    next
      case (NotScene j)
      with Some show ?thesis by (cases j) (auto simp: falsyElements_def)
    qed
  qed
  from missing rejected rendered typed falsy_cases[of v] fe show ?thesis by blast
qed

theorem export_guard_is_truthiness_witness:
  "bodyElements \<lparr>bodyWidth = Some (JNumber 800), bodyHeight = Some (JNumber 600),
                  bodyElements = None\<rparr> = None
   \<and> exportRoute strictLibraries offlineServer
        \<lparr>bodyWidth = Some (JNumber 800), bodyHeight = Some (JNumber 600), bodyElements = None\<rparr>
       = (JsonError 400 ''Missing required fields: width, height, elements'', [])
   \<and> falsyElements (Some (NotScene JNull))
   \<and> exportRoute strictLibraries offlineServer
        \<lparr>bodyWidth = Some (JNumber 800), bodyHeight = Some (JNumber 600),
         bodyElements = Some (NotScene JNull)\<rparr>
       = (JsonError 400 ''Missing required fields: width, height, elements'', [])
   \<and> fst (exportRoute strictLibraries offlineServer
        \<lparr>bodyWidth = Some (JNumber 800), bodyHeight = Some (JNumber 600),
         bodyElements = Some (Scene [Rect 10 10 100 100 ''red''])\<rparr>)
       = PdfStream \<lparr>pageWidth = 800, pageHeight = 600,
                     raster = [SetFillStyle ''red'', FillRect 10 10 100 100]\<rparr>
   \<and> \<not> falsy (Some (JString ''800''))
   \<and> fst (exportRoute strictLibraries offlineServer
        \<lparr>bodyWidth = Some (JString ''800''), bodyHeight = Some (JNumber 600),
         bodyElements = Some (Scene [Rect 10 10 100 100 ''red''])\<rparr>)
       = JsonError 500 ''Failed to generate PDF''"
proof -
  have a: "exportRoute strictLibraries offlineServer
        \<lparr>bodyWidth = Some (JNumber 800), bodyHeight = Some (JNumber 600), bodyElements = None\<rparr>
       = (JsonError 400 ''Missing required fields: width, height, elements'', [])"
    using export_guard_is_truthiness
      [where b = "\<lparr>bodyWidth = Some (JNumber 800), bodyHeight = Some (JNumber 600),
                    bodyElements = None\<rparr>"
         and offContract = strictLibraries and srv = offlineServer]
    by simp
  have n: "falsyElements (Some (NotScene JNull))" by (simp add: falsyElements_def)
  have b: "exportRoute strictLibraries offlineServer
        \<lparr>bodyWidth = Some (JNumber 800), bodyHeight = Some (JNumber 600),
         bodyElements = Some (NotScene JNull)\<rparr>
       = (JsonError 400 ''Missing required fields: width, height, elements'', [])"
    using n export_guard_is_truthiness
      [where b = "\<lparr>bodyWidth = Some (JNumber 800), bodyHeight = Some (JNumber 600),
                    bodyElements = Some (NotScene JNull)\<rparr>"
         and offContract = strictLibraries and srv = offlineServer]
    by simp
  have c: "fst (exportRoute strictLibraries offlineServer
        \<lparr>bodyWidth = Some (JNumber 800), bodyHeight = Some (JNumber 600),
         bodyElements = Some (Scene [Rect 10 10 100 100 ''red''])\<rparr>)
       = PdfStream \<lparr>pageWidth = 800, pageHeight = 600,
                     raster = [SetFillStyle ''red'', FillRect 10 10 100 100]\<rparr>"
    using export_guard_is_truthiness
      [where b = "\<lparr>bodyWidth = Some (JNumber 800), bodyHeight = Some (JNumber 600),
                    bodyElements = Some (Scene [Rect 10 10 100 100 ''red''])\<rparr>"
         and w = 800 and h = 600 and els = "[Rect 10 10 100 100 ''red'']"
         and offContract = strictLibraries and srv = offlineServer]
    by (simp add: offlineServer_def)
  have t: "\<not> falsy (Some (JString ''800''))" by (simp add: falsy_def)
  have d: "fst (exportRoute strictLibraries offlineServer
        \<lparr>bodyWidth = Some (JString ''800''), bodyHeight = Some (JNumber 600),
         bodyElements = Some (Scene [Rect 10 10 100 100 ''red''])\<rparr>)
       = JsonError 500 ''Failed to generate PDF''"
    by (simp add: exportRoute_def falsy_def falsyElements_def strictLibraries_def)
  from a n b c t d show ?thesis by simp
qed

text \<open>
  Two requests with all three fields present that are rejected with status 400: one
  with width 0, one with \<open>elements: null\<close>.
\<close>

theorem falsy_fields_export_counterexample:
  "bodyWidth \<lparr>bodyWidth = Some (JNumber 0), bodyHeight = Some (JNumber 600),
               bodyElements = Some (Scene [Rect 10 10 100 100 ''red''])\<rparr> \<noteq> None
   \<and> exportRoute strictLibraries offlineServer
        \<lparr>bodyWidth = Some (JNumber 0), bodyHeight = Some (JNumber 600),
         bodyElements = Some (Scene [Rect 10 10 100 100 ''red''])\<rparr>
     = (JsonError 400 ''Missing required fields: width, height, elements'', [])
   \<and> bodyElements \<lparr>bodyWidth = Some (JNumber 800), bodyHeight = Some (JNumber 600),
               bodyElements = Some (NotScene JNull)\<rparr> \<noteq> None
   \<and> exportRoute strictLibraries offlineServer
        \<lparr>bodyWidth = Some (JNumber 800), bodyHeight = Some (JNumber 600),
         bodyElements = Some (NotScene JNull)\<rparr>
     = (JsonError 400 ''Missing required fields: width, height, elements'', [])"
  by (simp add: exportRoute_def falsy_def falsyElements_def)

text \<open>
  C9. When the source of an image element fails to load, \<open>drawElements\<close> paints
  the elements before it and the elements after it exactly as without it, and logs the
  failure at its place. The response of the export is the one for the scene without
  the failing element; when the request is valid and the libraries do not throw, it is
  the document.
\<close>

theorem failed_image_is_skipped:
  assumes fail: "loadImage srv (imageSourceOf src) = Inl msg"
  shows "drawElements (loadImage srv) (before @ Image ex ey w h src # after) =
       (fst (drawElements (loadImage srv) before) @ fst (drawElements (loadImage srv) after),
        snd (drawElements (loadImage srv) before) @ [''Failed to load image: '' @ msg]
          @ snd (drawElements (loadImage srv) after))
   \<and> fst (drawElements (loadImage srv) (before @ Image ex ey w h src # after))
       = fst (drawElements (loadImage srv) (before @ after))
   \<and> fst (exportPdf srv (req\<lparr>reqElements := Some (before @ Image ex ey w h src # after)\<rparr>))
       = fst (exportPdf srv (req\<lparr>reqElements := Some (before @ after)\<rparr>))
   \<and> ((reqWidth req = Some width \<and> width \<noteq> 0 \<and> reqHeight req = Some height \<and> height \<noteq> 0
        \<and> createCanvasOk srv width height
        \<and> assembleOk srv width height (fst (drawElements (loadImage srv) (before @ after)))) \<longrightarrow>
       exportPdf srv (req\<lparr>reqElements := Some (before @ Image ex ey w h src # after)\<rparr>)
         = (PdfStream \<lparr>pageWidth = width, pageHeight = height,
                        raster = fst (drawElements (loadImage srv) (before @ after))\<rparr>,
            snd (drawElements (loadImage srv) before) @ [''Failed to load image: '' @ msg]
              @ snd (drawElements (loadImage srv) after)))"
proof -
  let ?load = "loadImage srv"
  have d: "drawElements ?load (before @ Image ex ey w h src # after) =
       (fst (drawElements ?load before) @ fst (drawElements ?load after),
        snd (drawElements ?load before) @ [''Failed to load image: '' @ msg]
          @ snd (drawElements ?load after))"
    unfolding drawElements_append[of ?load before] drawElements_failed_image[of "loadImage srv", OF fail] by simp
  have same: "fst (drawElements ?load (before @ Image ex ey w h src # after))
       = fst (drawElements ?load (before @ after))"
    unfolding d drawElements_append[of ?load before after] by simp
  have resp: "fst (exportPdf srv (req\<lparr>reqElements := Some (before @ Image ex ey w h src # after)\<rparr>))
       = fst (exportPdf srv (req\<lparr>reqElements := Some (before @ after)\<rparr>))"
    using same
    by (auto simp: exportPdf_def falsyArray_def split: prod.splits option.splits)
  have ok: "(reqWidth req = Some width \<and> width \<noteq> 0 \<and> reqHeight req = Some height \<and> height \<noteq> 0
        \<and> createCanvasOk srv width height
        \<and> assembleOk srv width height (fst (drawElements ?load (before @ after)))) \<longrightarrow>
       exportPdf srv (req\<lparr>reqElements := Some (before @ Image ex ey w h src # after)\<rparr>)
         = (PdfStream \<lparr>pageWidth = width, pageHeight = height,
                        raster = fst (drawElements ?load (before @ after))\<rparr>,
            snd (drawElements ?load before) @ [''Failed to load image: '' @ msg]
              @ snd (drawElements ?load after))"
    using same d
    by (auto simp: exportPdf_def falsyArray_def falsyNumber_def split: prod.splits)
  from d same resp ok show ?thesis by blast
qed

theorem failed_image_is_skipped_witness:
  "loadImage offlineServer (imageSourceOf ''http://example.com/a.png'')
     = Inl ''getaddrinfo ENOTFOUND''
   \<and> exportPdf offlineServer
        \<lparr>reqWidth = Some 800, reqHeight = Some 600,
         reqElements = Some [Rect 10 10 100 100 ''red'',
                             Image 0 0 150 150 ''http://example.com/a.png'',
                             Text 50 50 [0x48, 0x69] 24 ''black'']\<rparr>
     = (PdfStream \<lparr>pageWidth = 800, pageHeight = 600,
                    raster = [SetFillStyle ''red'', FillRect 10 10 100 100,
                              SetFont 24, SetFillStyle ''black'', FillText [0x48, 0x69] 50 50]\<rparr>,
        [''Failed to load image: getaddrinfo ENOTFOUND''])"
proof -
  have f: "loadImage offlineServer (imageSourceOf ''http://example.com/a.png'')
     = Inl ''getaddrinfo ENOTFOUND''"
    by (simp add: offlineServer_def offlineLoad_def imageSourceOf_def)
  from failed_image_is_skipped
    [OF f, where before = "[Rect 10 10 100 100 ''red'']"
       and after = "[Text 50 50 [0x48, 0x69] 24 ''black'']"
       and req = "\<lparr>reqWidth = Some 800, reqHeight = Some 600, reqElements = None\<rparr>"
       and width = 800 and height = 600 and ex = 0 and ey = 0 and w = 150 and h = 150]
  have "exportPdf offlineServer
        \<lparr>reqWidth = Some 800, reqHeight = Some 600,
         reqElements = Some [Rect 10 10 100 100 ''red'',
                             Image 0 0 150 150 ''http://example.com/a.png'',
                             Text 50 50 [0x48, 0x69] 24 ''black'']\<rparr>
     = (PdfStream \<lparr>pageWidth = 800, pageHeight = 600,
                    raster = [SetFillStyle ''red'', FillRect 10 10 100 100,
                              SetFont 24, SetFillStyle ''black'', FillText [0x48, 0x69] 50 50]\<rparr>,
        [''Failed to load image: getaddrinfo ENOTFOUND''])"
    by (simp add: offlineServer_def)
  with f show ?thesis by simp
qed

section \<open>Hit testing a path\<close>

lemma dist2_nonneg: "0 \<le> dist2 p q"
  by (simp add: dist2_def)

lemma dist2_zero: "dist2 b a = 0 \<Longrightarrow> px b = px a \<and> py b = py a"
  by (simp add: dist2_def sum_power2_eq_zero_iff)

lemma dist2_pos: "a \<noteq> b \<Longrightarrow> 0 < dist2 b a"
proof -
  assume ne: "a \<noteq> b"
  have "dist2 b a \<noteq> 0"
  proof
    assume "dist2 b a = 0"
    from dist2_zero[OF this] have "b = a" by (cases a, cases b) simp
    with ne show False by simp
  qed
  with dist2_nonneg[of b a] show ?thesis by simp
qed

lemma dist2_along:
  "dist2 p (along a b t) = dist2 p a - 2 * t * dotFrom p a b + t\<^sup>2 * dist2 b a"
  by (simp add: dist2_def along_def dotFrom_def power2_eq_square algebra_simps)

lemma lagrange:
  "dist2 p a * dist2 b a = (dotFrom p a b)\<^sup>2 + (crossFrom p a b)\<^sup>2"
  by (simp add: dist2_def dotFrom_def crossFrom_def power2_eq_square algebra_simps)

lemma dotFrom_other_end: "dotFrom p b a = dist2 b a - dotFrom p a b"
  by (simp add: dist2_def dotFrom_def power2_eq_square algebra_simps)

lemma dist2_other_end: "dist2 p b = dist2 p a - 2 * dotFrom p a b + dist2 b a"
  by (simp add: dist2_def dotFrom_def power2_eq_square algebra_simps)

lemma cauchy: "dotFrom a b c \<le> sqrt (dist2 b a) * sqrt (dist2 c b)"
proof -
  have "dist2 a b * dist2 c b = (dotFrom a b c)\<^sup>2 + (crossFrom a b c)\<^sup>2" by (rule lagrange)
  then have "(dotFrom a b c)\<^sup>2 \<le> dist2 a b * dist2 c b" by simp
  then have "sqrt ((dotFrom a b c)\<^sup>2) \<le> sqrt (dist2 a b * dist2 c b)"
    by (rule real_sqrt_le_mono)
  then have "\<bar>dotFrom a b c\<bar> \<le> sqrt (dist2 a b) * sqrt (dist2 c b)"
    by (simp only: real_sqrt_abs real_sqrt_mult)
  moreover have "dist2 a b = dist2 b a" by (simp add: dist2_def power2_commute)
  ultimately show ?thesis by simp
qed

lemma sq_mono: "0 \<le> h \<Longrightarrow> h \<le> h' \<Longrightarrow> h\<^sup>2 * d \<le> h'\<^sup>2 * d" if "0 \<le> d" for h h' d :: real
proof -
  assume "0 \<le> h" "h \<le> h'"
  then have "h\<^sup>2 \<le> h'\<^sup>2" by (intro power_mono) simp_all
  with that show ?thesis by (simp add: mult_right_mono)
qed

lemma inSweep_mono: "0 \<le> h \<Longrightarrow> h \<le> h' \<Longrightarrow> inSweep h p a b \<Longrightarrow> inSweep h' p a b"
  using sq_mono[OF dist2_nonneg[of b a], of h h'] by (auto simp: inSweep_def)

lemma inRoundCap_mono: "0 \<le> h \<Longrightarrow> h \<le> h' \<Longrightarrow> inRoundCap h p e n \<Longrightarrow> inRoundCap h' p e n"
proof -
  assume h: "0 \<le> h" "h \<le> h'" and c: "inRoundCap h p e n"
  from h have "h\<^sup>2 \<le> h'\<^sup>2" by (intro power_mono) simp_all
  with c show ?thesis by (auto simp: inRoundCap_def)
qed

lemma inJoin_mono:
  assumes h: "0 \<le> h" "h \<le> h'" and j: "inJoin h p a b c"
  shows "inJoin h' p a b c"
proof -
  have m1: "h\<^sup>2 * dist2 b a \<le> h'\<^sup>2 * dist2 b a" using sq_mono[OF dist2_nonneg h] .
  have m2: "h\<^sup>2 * dist2 c b \<le> h'\<^sup>2 * dist2 c b" using sq_mono[OF dist2_nonneg h] .
  have "0 \<le> sqrt (dist2 b a) * sqrt (dist2 c b) - dotFrom a b c" using cauchy[of a b c] by simp
  then have m3: "h * (sqrt (dist2 b a) * sqrt (dist2 c b) - dotFrom a b c)
      \<le> h' * (sqrt (dist2 b a) * sqrt (dist2 c b) - dotFrom a b c)"
    using h(2) by (rule mult_right_mono[rotated])
  show ?thesis
    using j m1 m2 m3 unfolding inJoin_def Let_def
    by (auto split: if_splits)
qed

lemma clamp_minimizes:
  fixes L u t :: real
  assumes L: "0 < L" and t: "0 \<le> t" "t \<le> 1"
  shows "2 * t * u - t\<^sup>2 * L \<le> 2 * max 0 (min 1 (u / L)) * u - (max 0 (min 1 (u / L)))\<^sup>2 * L"
proof -
  define t0 where "t0 = u / L"
  define s where "s = max 0 (min 1 t0)"
  have u: "u = t0 * L" using L by (simp add: t0_def)
  have prod: "0 \<le> (t - s) * (t + s - 2 * t0)"
  proof -
    consider "t0 < 0" | "0 \<le> t0 \<and> t0 \<le> 1" | "1 < t0" by linarith
    then show ?thesis
    proof cases
      case 1
      then have "s = 0" by (simp add: s_def)
      with 1 t show ?thesis by (simp add: mult_nonneg_nonneg)
    next
      case 2
      then have "s = t0" by (simp add: s_def)
      then have "(t - s) * (t + s - 2 * t0) = (t - t0)\<^sup>2"
        by (simp add: power2_eq_square algebra_simps)
      then show ?thesis by simp
    next
      case 3
      then have "s = 1" by (simp add: s_def)
      with 3 t show ?thesis by (simp add: mult_nonpos_nonpos)
    qed
  qed
  have "(2 * s * u - s\<^sup>2 * L) - (2 * t * u - t\<^sup>2 * L) = L * ((t - s) * (t + s - 2 * t0))"
    unfolding u by (simp add: power2_eq_square algebra_simps)
  moreover have "0 \<le> L * ((t - s) * (t + s - 2 * t0))"
    using L prod by (simp add: mult_nonneg_nonneg)
  ultimately show ?thesis unfolding s_def t0_def by linarith
qed

lemma segDist2_le:
  assumes "0 \<le> t" "t \<le> 1"
  shows "segDist2 p a b \<le> dist2 p (along a b t)"
proof (cases "dist2 b a = 0")
  case True
  then have "along a b t = a" using dist2_zero[OF True] by (cases a) (simp add: along_def)
  with True show ?thesis by (simp add: segDist2_def)
next
  case False
  have "0 \<le> dist2 b a" by (simp add: dist2_def)
  with False have L: "0 < dist2 b a" by simp
  show ?thesis
    using False clamp_minimizes[OF L assms, of "dotFrom p a b"]
    by (simp add: segDist2_def Let_def dist2_along dotFrom_def)
qed

lemma segDist2_attained:
  "\<exists>t. 0 \<le> t \<and> t \<le> 1 \<and> segDist2 p a b = dist2 p (along a b t)"
proof (cases "dist2 b a = 0")
  case True
  have "along a b 0 = a" by (cases a) (simp add: along_def)
  with True have "segDist2 p a b = dist2 p (along a b 0)" by (simp add: segDist2_def)
  then show ?thesis by (intro exI[of _ 0]) simp
next
  case False
  let ?t = "max 0 (min 1 (dotFrom p a b / dist2 b a))"
  have "segDist2 p a b = dist2 p (along a b ?t)"
    using False by (simp add: segDist2_def Let_def dotFrom_def)
  moreover have "0 \<le> ?t" "?t \<le> 1" by simp_all
  ultimately show ?thesis by blast
qed

lemma segDist2_within:
  assumes "0 \<le> r"
  shows "(segDist2 p a b \<le> r\<^sup>2)
     = (\<exists>t. 0 \<le> t \<and> t \<le> 1 \<and> sqrt (dist2 p (along a b t)) \<le> r)"
proof
  assume "segDist2 p a b \<le> r\<^sup>2"
  with segDist2_attained[of p a b] show "\<exists>t. 0 \<le> t \<and> t \<le> 1 \<and> sqrt (dist2 p (along a b t)) \<le> r"
    using sqrt_le_iff_sq[OF assms] by auto
next
  assume "\<exists>t. 0 \<le> t \<and> t \<le> 1 \<and> sqrt (dist2 p (along a b t)) \<le> r"
  then obtain t where t: "0 \<le> t" "t \<le> 1" "dist2 p (along a b t) \<le> r\<^sup>2"
    using sqrt_le_iff_sq[OF assms] by auto
  with segDist2_le[OF t(1,2), of p a b] show "segDist2 p a b \<le> r\<^sup>2" by linarith
qed


lemma canvasStroke_long:
  assumes "0 < v" "remdups_adj vs = x # y # rest"
  shows "canvasStroke ctx v vs p =
     (list_ex (\<lambda>(u, w). inSweep (v / 2) p u w) (segments (x # y # rest)) \<or>
      list_ex (\<lambda>(u, w, z). inJoin (v / 2) p u w z) (joints (x # y # rest)) \<or>
      (ctxLineCap ctx = Round \<and>
         (inRoundCap (v / 2) p x y \<or>
          inRoundCap (v / 2) p (last (x # y # rest)) (last (butlast (x # y # rest))))))"
  unfolding canvasStroke_def Let_def assms(2) list.case using assms(1) by (simp only: if_True)

lemma canvasStroke_short:
  assumes "remdups_adj vs = [] \<or> (\<exists>x. remdups_adj vs = [x])"
  shows "\<not> canvasStroke ctx v vs p"
  using assms by (auto simp: canvasStroke_def Let_def)

lemma canvasStroke_mono:
  assumes v: "0 < v" "v \<le> v'" and hit: "canvasStroke ctx v vs p"
  shows "canvasStroke ctx v' vs p"
proof -
  have h: "0 \<le> v / 2" "v / 2 \<le> v' / 2" using v by simp_all
  have v': "0 < v'" using v by simp
  have sw: "inSweep (v / 2) p u w \<Longrightarrow> inSweep (v' / 2) p u w" for u w
    by (rule inSweep_mono[OF h])
  have jn: "inJoin (v / 2) p u w x \<Longrightarrow> inJoin (v' / 2) p u w x" for u w x
    by (rule inJoin_mono[OF h])
  have cp: "inRoundCap (v / 2) p u w \<Longrightarrow> inRoundCap (v' / 2) p u w" for u w
    by (rule inRoundCap_mono[OF h])
  obtain x y rest where r: "remdups_adj vs = x # y # rest"
  proof (cases "remdups_adj vs")
    case Nil
    with canvasStroke_short[of vs ctx v p] hit show ?thesis by simp
  next
    case (Cons x xs)
    show ?thesis
    proof (cases xs)
      case Nil
      with Cons canvasStroke_short[of vs ctx v p] hit show ?thesis by simp
    next
      case (Cons y rest)
      with \<open>remdups_adj vs = x # xs\<close> that show ?thesis by simp
    qed
  qed
  show ?thesis
    using hit unfolding canvasStroke_long[OF v(1) r] canvasStroke_long[OF v' r] list_ex_iff
    by (blast dest: sw jn cp)
qed

lemma hitWith_path:
  "hitWith pad q pos (Path pts c sw) = (pts \<noteq> [] \<and> q (sw + pad) (hd pts # pts) pos)"
  by (cases pts) simp_all

lemma segments_two: "(a, b) \<in> set (segments vs) \<Longrightarrow> \<exists>x y rest. vs = x # y # rest"
  by (cases vs rule: segments.cases) simp_all

lemma foot_in_sweep:
  assumes t: "0 \<le> t" "t \<le> 1" and f: "isFoot p a b t" and h: "0 \<le> h"
    and d: "sqrt (dist2 p (along a b t)) \<le> h"
  shows "inSweep h p a b"
proof -
  let ?L = "dist2 b a"
  have L: "0 \<le> ?L" by (rule dist2_nonneg)
  have u: "dotFrom p a b = t * ?L"
    using f by (simp add: isFoot_def along_def dotFrom_def dist2_def power2_eq_square algebra_simps)
  have d2: "dist2 p (along a b t) \<le> h\<^sup>2" using d sqrt_le_iff_sq[OF h] by simp
  have "dist2 p (along a b t) = dist2 p a - t\<^sup>2 * ?L"
    unfolding dist2_along u by (simp add: power2_eq_square algebra_simps)
  then have "dist2 p (along a b t) * ?L = (dist2 p a - t\<^sup>2 * ?L) * ?L" by simp
  also have "\<dots> = dist2 p a * ?L - (t * ?L)\<^sup>2"
    by (simp add: power2_eq_square algebra_simps)
  also have "\<dots> = (crossFrom p a b)\<^sup>2" using lagrange[of p a b] u by simp
  finally have c: "(crossFrom p a b)\<^sup>2 = dist2 p (along a b t) * ?L" by simp
  have "(crossFrom p a b)\<^sup>2 \<le> h\<^sup>2 * ?L" unfolding c using d2 L by (rule mult_right_mono)
  moreover have "0 \<le> t * ?L" using t L by simp
  moreover have "t * ?L \<le> ?L" using t L by (simp add: mult_left_le_one_le)
  ultimately show ?thesis by (simp add: inSweep_def u)
qed

lemma band_in_stroke:
  assumes seg: "(a, b) \<in> set (segments (remdups_adj vs))" and v: "0 < v"
    and t: "0 \<le> t" "t \<le> 1" and f: "isFoot p a b t"
    and d: "sqrt (dist2 p (along a b t)) \<le> v / 2"
  shows "canvasStroke ctx v vs p"
proof -
  have h: "0 \<le> v / 2" using v by simp
  have sw: "inSweep (v / 2) p a b" by (rule foot_in_sweep[OF t f h d])
  from segments_two[OF seg] obtain x y rest where r: "remdups_adj vs = x # y # rest" by blast
  have "list_ex (\<lambda>(u, w). inSweep (v / 2) p u w) (segments (x # y # rest))"
    unfolding list_ex_iff using seg sw r by force
  then show ?thesis unfolding canvasStroke_long[OF v r] by blast
qed

lemma stadium:
  assumes ne: "a \<noteq> b" and h: "0 \<le> h"
  shows "(inSweep h p a b \<or> inRoundCap h p a b \<or> inRoundCap h p b a) = (segDist2 p a b \<le> h\<^sup>2)"
proof -
  let ?L = "dist2 b a" and ?u = "dotFrom p a b"
  have L: "0 < ?L" by (rule dist2_pos[OF ne])
  have La: "dist2 a b = ?L" by (simp add: dist2_def power2_commute)
  have ob: "dotFrom p b a = ?L - ?u" using dotFrom_other_end[of p b a] by simp
  consider "?u < 0" | "0 \<le> ?u \<and> ?u \<le> ?L" | "?L < ?u" by linarith
  then show ?thesis
  proof cases
    case 1
    then have "?u / ?L < 0" using L by (simp add: divide_neg_pos)
    then have cl: "max 0 (min 1 (?u / ?L)) = 0" by simp
    have s: "segDist2 p a b = dist2 p a"
      using L by (simp add: segDist2_def Let_def cl dist2_along)
    show ?thesis using 1 L by (auto simp: s inSweep_def inRoundCap_def ob La)
  next
    case 2
    then have r: "0 \<le> ?u / ?L" "?u / ?L \<le> 1" using L by simp_all
    then have cl: "max 0 (min 1 (?u / ?L)) = ?u / ?L" by simp
    have s: "segDist2 p a b = dist2 p a - 2 * (?u / ?L) * ?u + (?u / ?L)\<^sup>2 * ?L"
      using L by (simp add: segDist2_def Let_def cl dist2_along)
    have "segDist2 p a b * ?L = dist2 p a * ?L - ?u\<^sup>2"
      unfolding s using L by (simp add: power2_eq_square field_simps)
    then have c: "(crossFrom p a b)\<^sup>2 = segDist2 p a b * ?L" using lagrange[of p a b] by simp
    have sweep: "inSweep h p a b = (segDist2 p a b \<le> h\<^sup>2)"
      using 2 L by (simp add: inSweep_def c)
    have capA: "inRoundCap h p a b \<Longrightarrow> segDist2 p a b \<le> h\<^sup>2"
    proof -
      assume "inRoundCap h p a b"
      then have "dist2 p a \<le> h\<^sup>2" "?u = 0" using 2 by (simp_all add: inRoundCap_def)
      then show ?thesis by (simp add: s)
    qed
    have capB: "inRoundCap h p b a \<Longrightarrow> segDist2 p a b \<le> h\<^sup>2"
    proof -
      assume "inRoundCap h p b a"
      then have "dist2 p b \<le> h\<^sup>2" "?u = ?L" using 2 by (simp_all add: inRoundCap_def ob)
      then show ?thesis using L dist2_other_end[of p b a] by (simp add: s power2_eq_square)
    qed
    show ?thesis using sweep capA capB by blast
  next
    case 3
    then have "1 < ?u / ?L" using L by simp
    then have cl: "max 0 (min 1 (?u / ?L)) = 1" by simp
    have s: "segDist2 p a b = dist2 p b"
      using L by (simp add: segDist2_def Let_def cl dist2_along dist2_other_end[of p b a])
    show ?thesis using 3 L by (auto simp: s inSweep_def inRoundCap_def ob La)
  qed
qed

lemma straight_stroke:
  assumes ne: "a \<noteq> b" and v: "0 < v" and cap: "ctxLineCap ctx = Round"
  shows "canvasStroke ctx v [a, a, b] p
     = (\<exists>t. 0 \<le> t \<and> t \<le> 1 \<and> sqrt (dist2 p (along a b t)) \<le> v / 2)"
proof -
  have h: "0 \<le> v / 2" using v by simp
  have "canvasStroke ctx v [a, a, b] p
      = (inSweep (v / 2) p a b \<or> inRoundCap (v / 2) p a b \<or> inRoundCap (v / 2) p b a)"
    using ne v cap by (simp add: canvasStroke_def Let_def)
  also have "\<dots> = (segDist2 p a b \<le> (v / 2)\<^sup>2)" by (rule stadium[OF ne h])
  also have "\<dots> = (\<exists>t. 0 \<le> t \<and> t \<le> 1 \<and> sqrt (dist2 p (along a b t)) \<le> v / 2)"
    by (rule segDist2_within[OF h])
  finally show ?thesis .
qed

text \<open>
  At the corner of the path \<open>(20,20), (30,20), (30,30)\<close> a stroke of line width 12 has
  a miter join: it covers \<open>(35, 15)\<close>, which is farther than 6 from both segments, and
  ends at the outer edges. A path of one point has no stroke.
\<close>

lemma canvasStroke_corner_and_dot:
  "canvasStroke \<lparr>ctxLineWidth = 1, ctxLineCap = Butt\<rparr> 12
      [Point 20 20, Point 20 20, Point 30 20, Point 30 30] (Point 35 15)
   \<and> canvasStroke \<lparr>ctxLineWidth = 1, ctxLineCap = Round\<rparr> 12
      [Point 20 20, Point 20 20, Point 30 20, Point 30 30] (Point 35 15)
   \<and> \<not> canvasStroke \<lparr>ctxLineWidth = 1, ctxLineCap = Round\<rparr> 12
      [Point 20 20, Point 20 20, Point 30 20, Point 30 30] (Point 37 13)
   \<and> \<not> canvasStroke ctx v [Point 20 20, Point 20 20] p"
proof -
  have s: "sqrt 100 = 10" by (rule real_sqrt_unique) simp_all
  have j: "inJoin 6 (Point 35 15) (Point 20 20) (Point 30 20) (Point 30 30)"
    by (simp add: inJoin_def Let_def crossFrom_def dotFrom_def dist2_def s power2_eq_square)
  have nj: "\<not> inJoin 6 (Point 37 13) (Point 20 20) (Point 30 20) (Point 30 30)"
    by (simp add: inJoin_def Let_def crossFrom_def dotFrom_def dist2_def s power2_eq_square)
  have r: "remdups_adj [Point 20 20, Point 20 20, Point 30 20, Point 30 30]
      = [Point 20 20, Point 30 20, Point 30 30]" by simp
  have a: "canvasStroke c 12 [Point 20 20, Point 20 20, Point 30 20, Point 30 30] (Point 35 15)" for c
    unfolding canvasStroke_long[of 12, OF _ r, simplified] using j by simp
  have b: "\<not> canvasStroke \<lparr>ctxLineWidth = 1, ctxLineCap = Round\<rparr> 12
      [Point 20 20, Point 20 20, Point 30 20, Point 30 30] (Point 37 13)"
    unfolding canvasStroke_long[of 12, OF _ r, simplified] using nj
    by (simp add: inSweep_def inRoundCap_def dotFrom_def dist2_def crossFrom_def power2_eq_square)
  have c: "\<not> canvasStroke ctx v [Point 20 20, Point 20 20] p"
    by (rule canvasStroke_short) simp
  from a b c show ?thesis by blast
qed

text \<open>
  C7 (as amended). The hit test of a path is the stroke query of the canvas for the
  polyline (its first point, then all its points) at a line width of the stroke width
  plus a padding, and a path without points is never hit. The padding is 10 in the
  select tool and 5 in the eraser, so the two tools do not test alike; with a positive
  line width, whatever the eraser hits the select tool hits as well. The stroke
  reaches half the line width from the path: a point whose perpendicular foot falls
  on a segment is hit when it is at most \<open>(strokeWidth + padding) / 2\<close> away from
  it, and for a path of two distinct points with round caps the hit test holds exactly
  of the points within \<open>(strokeWidth + padding) / 2\<close> of the segment.
\<close>

theorem path_hit_is_canvas_stroke:
  "hitSelect = hitWith 10 \<and> hitEraser = hitWith 5
   \<and> hitWith pad (canvasStroke ctx) pos (Path pts c sw)
       = (pts \<noteq> [] \<and> canvasStroke ctx (sw + pad) (hd pts # pts) pos)
   \<and> (0 < sw + 5 \<longrightarrow> hitEraser (canvasStroke ctx) pos (Path pts c sw)
         \<longrightarrow> hitSelect (canvasStroke ctx) pos (Path pts c sw))
   \<and> ((0 < sw + pad \<and> (a, b) \<in> set (segments (remdups_adj (hd pts # pts)))
        \<and> 0 \<le> t \<and> t \<le> 1 \<and> isFoot pos a b t
        \<and> sqrt (dist2 pos (along a b t)) \<le> (sw + pad) / 2) \<longrightarrow>
       hitWith pad (canvasStroke ctx) pos (Path pts c sw))
   \<and> ((0 < sw + pad \<and> a \<noteq> b \<and> ctxLineCap ctx = Round) \<longrightarrow>
       hitWith pad (canvasStroke ctx) pos (Path [a, b] c sw)
         = (\<exists>t. 0 \<le> t \<and> t \<le> 1 \<and> sqrt (dist2 pos (along a b t)) \<le> (sw + pad) / 2))"
proof -
  have mono: "hitSelect (canvasStroke ctx) pos (Path pts c sw)"
    if "0 < sw + 5" "hitEraser (canvasStroke ctx) pos (Path pts c sw)"
    using that canvasStroke_mono[of "sw + 5" "sw + 10" ctx "hd pts # pts" pos]
    unfolding hitSelect_def hitEraser_def hitWith_path by simp
  have band: "hitWith pad (canvasStroke ctx) pos (Path pts c sw)"
    if "0 < sw + pad" "(a, b) \<in> set (segments (remdups_adj (hd pts # pts)))"
      "0 \<le> t" "t \<le> 1" "isFoot pos a b t" "sqrt (dist2 pos (along a b t)) \<le> (sw + pad) / 2"
  proof -
    have "pts \<noteq> []"
    proof
      assume "pts = []"
      with that(2) show False by simp
    qed
    moreover have "canvasStroke ctx (sw + pad) (hd pts # pts) pos"
      by (rule band_in_stroke[OF that(2) that(1) that(3-6)])
    ultimately show ?thesis unfolding hitWith_path by simp
  qed
  have straight: "hitWith pad (canvasStroke ctx) pos (Path [a, b] c sw)
         = (\<exists>t. 0 \<le> t \<and> t \<le> 1 \<and> sqrt (dist2 pos (along a b t)) \<le> (sw + pad) / 2)"
    if "0 < sw + pad" "a \<noteq> b" "ctxLineCap ctx = Round"
    unfolding hitWith_path using straight_stroke[OF that(2) that(1) that(3), of pos] by simp
  show ?thesis
    using mono band straight hitWith_path[of pad "canvasStroke ctx" pos pts c sw]
    by (simp add: hitSelect_def hitEraser_def)
qed

theorem path_hit_is_canvas_stroke_witness:
  "(0::real) < 2 + 5
   \<and> (Point 20 20, Point 30 20)
       \<in> set (segments (remdups_adj [Point 20 20, Point 20 20, Point 30 20, Point 30 30]))
   \<and> isFoot (Point 25 23) (Point 20 20) (Point 30 20) (1 / 2)
   \<and> sqrt (dist2 (Point 25 23) (along (Point 20 20) (Point 30 20) (1 / 2))) \<le> (2 + 5) / 2
   \<and> hitEraser (canvasStroke \<lparr>ctxLineWidth = 1, ctxLineCap = Round\<rparr>) (Point 25 23)
        (Path [Point 20 20, Point 30 20, Point 30 30] ''#000000'' 2)
   \<and> hitSelect (canvasStroke \<lparr>ctxLineWidth = 1, ctxLineCap = Round\<rparr>) (Point 25 23)
        (Path [Point 20 20, Point 30 20, Point 30 30] ''#000000'' 2)
   \<and> Point 0 0 \<noteq> Point 10 0
   \<and> ctxLineCap \<lparr>ctxLineWidth = 1, ctxLineCap = Round\<rparr> = Round
   \<and> hitEraser (canvasStroke \<lparr>ctxLineWidth = 1, ctxLineCap = Round\<rparr>) (Point 12 0)
        (Path [Point 0 0, Point 10 0] ''#000000'' 2)
       = (\<exists>t. 0 \<le> t \<and> t \<le> 1
            \<and> sqrt (dist2 (Point 12 0) (along (Point 0 0) (Point 10 0) t)) \<le> (2 + 5) / 2)"
proof -
  let ?ctx = "\<lparr>ctxLineWidth = 1, ctxLineCap = Round\<rparr>"
  let ?V = "[Point 20 20, Point 30 20, Point 30 30]"
  have p: "(0::real) < 2 + 5" by simp
  have seg: "(Point 20 20, Point 30 20)
       \<in> set (segments (remdups_adj [Point 20 20, Point 20 20, Point 30 20, Point 30 30]))"
    by simp
  have foot: "isFoot (Point 25 23) (Point 20 20) (Point 30 20) (1 / 2)"
    by (simp add: isFoot_def along_def)
  have near: "sqrt (dist2 (Point 25 23) (along (Point 20 20) (Point 30 20) (1 / 2))) \<le> (2 + 5) / 2"
    by (simp add: sqrt_le_iff_sq dist2_def along_def power2_eq_square)
  note th = path_hit_is_canvas_stroke
    [where pad = 5 and ctx = ?ctx and pos = "Point 25 23" and pts = ?V and c = "''#000000''"
       and sw = 2 and a = "Point 20 20" and b = "Point 30 20" and t = "1 / 2"]
  have seg': "(Point 20 20, Point 30 20) \<in> set (segments (remdups_adj (hd ?V # ?V)))"
    by simp
  have half: "(0::real) \<le> 1 / 2" "(1::real) / 2 \<le> 1" by simp_all
  from th[THEN conjunct2, THEN conjunct2, THEN conjunct2, THEN conjunct2, THEN conjunct1]
    p seg' half foot near
  have "hitWith 5 (canvasStroke ?ctx) (Point 25 23) (Path ?V ''#000000'' 2)" by blast
  then have e: "hitEraser (canvasStroke ?ctx) (Point 25 23) (Path ?V ''#000000'' 2)"
    by (simp only: hitEraser_def)
  from th[THEN conjunct2, THEN conjunct2, THEN conjunct2, THEN conjunct1] p e
  have s: "hitSelect (canvasStroke ?ctx) (Point 25 23) (Path ?V ''#000000'' 2)" by blast
  have ne: "Point 0 0 \<noteq> Point 10 0" by simp
  have cap: "ctxLineCap ?ctx = Round" by simp
  note th2 = path_hit_is_canvas_stroke
    [where pad = 5 and ctx = ?ctx and pos = "Point 12 0" and c = "''#000000''"
       and sw = 2 and a = "Point 0 0" and b = "Point 10 0"]
  from th2[THEN conjunct2, THEN conjunct2, THEN conjunct2, THEN conjunct2, THEN conjunct2]
    p ne cap
  have "hitWith 5 (canvasStroke ?ctx) (Point 12 0) (Path [Point 0 0, Point 10 0] ''#000000'' 2)
       = (\<exists>t. 0 \<le> t \<and> t \<le> 1
            \<and> sqrt (dist2 (Point 12 0) (along (Point 0 0) (Point 10 0) t)) \<le> (2 + 5) / 2)"
    by blast
  then have st: "hitEraser (canvasStroke ?ctx) (Point 12 0) (Path [Point 0 0, Point 10 0] ''#000000'' 2)
       = (\<exists>t. 0 \<le> t \<and> t \<le> 1
            \<and> sqrt (dist2 (Point 12 0) (along (Point 0 0) (Point 10 0) t)) \<le> (2 + 5) / 2)"
    by (simp only: hitEraser_def)
  from p seg foot near e s ne cap st show ?thesis by blast
qed

text \<open>
  A horizontal stroke of width 2 and the point 5 units above its middle: the distance
  is 5, which is within \<open>strokeWidth + 5\<close>; with either line cap the select tool hits
  the path and the eraser does not.
\<close>

theorem path_hit_margin_counterexample:
  "hitSelect (canvasStroke \<lparr>ctxLineWidth = 1, ctxLineCap = Round\<rparr>) (Point 5 5)
      (Path [Point 0 0, Point 10 0] ''#000000'' 2)
   \<and> \<not> hitEraser (canvasStroke \<lparr>ctxLineWidth = 1, ctxLineCap = Round\<rparr>) (Point 5 5)
      (Path [Point 0 0, Point 10 0] ''#000000'' 2)
   \<and> hitSelect (canvasStroke \<lparr>ctxLineWidth = 1, ctxLineCap = Butt\<rparr>) (Point 5 5)
      (Path [Point 0 0, Point 10 0] ''#000000'' 2)
   \<and> \<not> hitEraser (canvasStroke \<lparr>ctxLineWidth = 1, ctxLineCap = Butt\<rparr>) (Point 5 5)
      (Path [Point 0 0, Point 10 0] ''#000000'' 2)
   \<and> segDist2 (Point 5 5) (Point 0 0) (Point 10 0) = 5\<^sup>2
   \<and> (5::real) \<le> 2 + 5"
  by (simp add: hitSelect_def hitEraser_def canvasStroke_def inSweep_def inRoundCap_def
      segDist2_def dist2_def dotFrom_def crossFrom_def along_def Let_def power2_eq_square)

end
